theory Spec2Isabelle
  imports Complex_Main
begin

section \<open>Penetration-depth gridding pipeline of mtpy\<close>

text \<open>
  The development embeds the functions of
  \<^verbatim>\<open>mtpy/imaging/penetration_depth_3d_profile.py\<close> (Python 2).
  Floating-point numbers are idealised as \<^typ>\<open>real\<close>: the formulas are the
  source's expression trees read over the reals, so rounding error, infinities and
  not-a-number values of the machine arithmetic are outside the model.  The one
  not-a-number value the source uses on purpose, the no-data sentinel of the raster,
  is modelled as \<^term>\<open>None\<close> in a grid of optional cells.  One property, the
  half-pixel bound of the grid mapper, depends on the rounding itself; for it the grid
  mapper is modelled a second time with the rounding of each float operation written
  out.
\<close>

subsection \<open>Errors\<close>

text \<open>
  Every way the source leaves a function without returning:
  \<^item> \<open>IndexError\<close>: an index outside a list or array (raised by Python or numpy);
  \<^item> \<open>ValueError\<close>: \<^verbatim>\<open>min()\<close> or \<^verbatim>\<open>max()\<close> of an empty sequence,
    or \<^verbatim>\<open>int()\<close> of a string that is no number;
  \<^item> \<open>IndexOutOfRange\<close>: the explicit
    \<^verbatim>\<open>raise Exception("Index out_of_range Error: ...")\<close>;
  \<^item> \<open>PeriodsNotEqual\<close>: the explicit
    \<^verbatim>\<open>raise Exception("Period values Not Equal across MT stations ...")\<close>;
  \<^item> \<open>SystemExit n\<close>: \<^verbatim>\<open>sys.exit(n)\<close>;
  \<^item> \<open>ZeroDivisionError\<close>: a Python float divided by zero;
  \<^item> \<open>UnboundLocalError\<close>: a local variable read before any branch assigned it.
\<close>

datatype error =
  IndexError | ValueError | IndexOutOfRange | PeriodsNotEqual | SystemExit int
  | ZeroDivisionError | UnboundLocalError

subsection \<open>Python sequences\<close>

text \<open>
  \<^verbatim>\<open>xs[i]\<close> for a Python integer \<open>i\<close>, on a list or a numpy array: positions
  0 .. len - 1 are read directly, positions -len .. -1 are read from the end, anything
  else raises.
\<close>

definition py_get :: "'a list \<Rightarrow> int \<Rightarrow> error + 'a" where
  "py_get xs i =
     (if 0 \<le> i \<and> i < int (length xs) then Inr (xs ! nat i)
      else if - int (length xs) \<le> i \<and> i < 0 then Inr (xs ! nat (int (length xs) + i))
      else Inl IndexError)"

text \<open>\<^verbatim>\<open>min(xs)\<close> and \<^verbatim>\<open>max(xs)\<close>: a left-to-right scan, failing on the empty list.\<close>

definition py_min :: "real list \<Rightarrow> error + real" where
  "py_min xs = (case xs of [] \<Rightarrow> Inl ValueError | x # rest \<Rightarrow> Inr (fold min rest x))"

definition py_max :: "real list \<Rightarrow> error + real" where
  "py_max xs = (case xs of [] \<Rightarrow> Inl ValueError | x # rest \<Rightarrow> Inr (fold max rest x))"

subsection \<open>Period consistency checker\<close>

text \<open>
  \<^verbatim>\<open>check_period_values\<close> reads \<^verbatim>\<open>period_list[0]\<close> and then scans the whole
  list, the first element included, returning \<open>False\<close> at the first element that
  differs from it.  The counter of the source is never read and is left out, as are
  the log lines.
\<close>

fun period_scan :: "real \<Rightarrow> real list \<Rightarrow> bool" where
  "period_scan p0 [] = True"
| "period_scan p0 (per # rest) = (if per \<noteq> p0 then False else period_scan p0 rest)"

definition check_period_values :: "real list \<Rightarrow> error + bool" where
  "check_period_values period_list =
     (case period_list of
        [] \<Rightarrow> Inl IndexError
      | p0 # _ \<Rightarrow> Inr (period_scan p0 period_list))"

subsection \<open>Bounding box\<close>

text \<open>
  \<^verbatim>\<open>get_bounding_box\<close> takes (lat, lon) pairs and returns
  ((minlon, maxlon), (minlat, maxlat)).  The minimum of the latitudes is taken first,
  so on the empty list it is that call which raises.
\<close>

definition get_bounding_box :: "(real \<times> real) list \<Rightarrow> error + ((real \<times> real) \<times> (real \<times> real))" where
  "get_bounding_box latlons =
     (let lats = map fst latlons; lons = map snd latlons in
      (case py_min lats of Inl e \<Rightarrow> Inl e | Inr minlat \<Rightarrow>
      (case py_max lats of Inl e \<Rightarrow> Inl e | Inr maxlat \<Rightarrow>
      (case py_min lons of Inl e \<Rightarrow> Inl e | Inr minlon \<Rightarrow>
      (case py_max lons of Inl e \<Rightarrow> Inl e | Inr maxlon \<Rightarrow>
        Inr ((minlon, maxlon), (minlat, maxlat)))))))"

subsection \<open>Grid mapper\<close>

text \<open>
  Python 2's \<^verbatim>\<open>round\<close> rounds to the nearest integer and a half away from zero;
  \<^verbatim>\<open>int(round(x))\<close> is that integer.
\<close>

definition py_round :: "real \<Rightarrow> int" where
  "py_round x = (if 0 \<le> x then \<lfloor>x + 1 / 2\<rfloor> else \<lceil>x - 1 / 2\<rceil>)"

text \<open>
  \<^verbatim>\<open>get_index(lat, lon, minlat, minlon, pixelsize, offset=1)\<close>.  The callers in
  this module never pass \<open>offset\<close>, so they are modelled with the default 1.
  A zero pixel size makes the division fail.  This is the reading over the reals that
  the raster pipelines below use.
\<close>

definition get_index :: "real \<Rightarrow> real \<Rightarrow> real \<Rightarrow> real \<Rightarrow> real \<Rightarrow> int \<Rightarrow> error + (int \<times> int)" where
  "get_index lat lon minlat minlon pixelsize offset =
     (if pixelsize = 0 then Inl ZeroDivisionError
      else
        let index_x = (lon - minlon) / pixelsize;
            index_y = (lat - minlat) / pixelsize;
            ix = py_round index_x;
            iy = py_round index_y
        in Inr (ix + offset, iy + offset))"

subsection \<open>The grid mapper in double precision\<close>

text \<open>
  The bound of the round trip through \<^verbatim>\<open>get_index\<close> is a statement about
  numbers half a pixel apart, so for it the arithmetic of the source is modelled as it
  is carried out: every float operation returns the binary64 number nearest to the exact
  result, a tie going to the even significand.  \<open>pow2 e\<close> is 2 to the power e,
  \<open>binade x\<close> the exponent of the leading bit of \<open>x\<close>, and \<open>double_round\<close>
  rounds to 53 significant bits.  The exponent range is taken unbounded: overflow and
  subnormal numbers are outside the model.
\<close>

definition pow2 :: "int \<Rightarrow> real" where
  "pow2 e = (if 0 \<le> e then 2 ^ nat e else 1 / 2 ^ nat (- e))"

definition round_half_even :: "real \<Rightarrow> int" where
  "round_half_even y =
     (let f = \<lfloor>y\<rfloor>; d = y - real_of_int f
      in if d < 1 / 2 then f else if 1 / 2 < d then f + 1 else if even f then f else f + 1)"

definition binade :: "real \<Rightarrow> int" where
  "binade x = \<lfloor>log 2 \<bar>x\<bar>\<rfloor>"

definition double_round :: "real \<Rightarrow> real" where
  "double_round x =
     (if x = 0 then 0
      else let ulp = pow2 (binade x - 52)
           in real_of_int (round_half_even (x / ulp)) * ulp)"

text \<open>
  \<^verbatim>\<open>get_index\<close> with its two float operations per axis, the subtraction and the
  division, each rounded; \<^verbatim>\<open>round\<close> of Python 2 is exact on a double, and the
  offset is added to an integer.
\<close>

definition get_index_double :: "real \<Rightarrow> real \<Rightarrow> real \<Rightarrow> real \<Rightarrow> real \<Rightarrow> int \<Rightarrow> error + (int \<times> int)" where
  "get_index_double lat lon minlat minlon pixelsize offset =
     (if pixelsize = 0 then Inl ZeroDivisionError
      else
        let index_x = double_round (double_round (lon - minlon) / pixelsize);
            index_y = double_round (double_round (lat - minlat) / pixelsize);
            ix = py_round index_x;
            iy = py_round index_y
        in Inr (ix + offset, iy + offset))"

subsection \<open>Station records\<close>

text \<open>
  What the module reads from a parsed EDI file (\<^verbatim>\<open>mt.MT(afile)\<close>, an external
  parser): the station name, its coordinates, and from the impedance object
  \<^verbatim>\<open>mt_obj.Z\<close> the frequencies, the resistivity array of shape (n, 2, 2) and the
  complex determinants \<^verbatim>\<open>Z.det[0]\<close>.  A 2x2 resistivity matrix is a pair of rows.
\<close>

type_synonym mat22 = "(real \<times> real) \<times> (real \<times> real)"

definition res_xy :: "mat22 \<Rightarrow> real" where
  "res_xy m = snd (fst m)"

definition res_yx :: "mat22 \<Rightarrow> real" where
  "res_yx m = fst (snd m)"

record station_rec =
  station :: string
  lat :: real
  lon :: real
  freq :: "real list"
  resistivity :: "mat22 list"
  det :: "complex list"

subsection \<open>Tensor extractor\<close>

text \<open>\<^verbatim>\<open>np.sqrt(1.0 / (2.0 * np.pi * 4 * np.pi * 10 ** (-7)))\<close>\<close>

definition scale_param :: real where
  "scale_param = sqrt (1 / (2 * pi * 4 * pi * (1 / 10 ^ 7)))"

text \<open>
  The body of the loop of \<^verbatim>\<open>get_penetration_depth\<close> for one file: the period
  and the penetration depth of the station, or the way the body fails.  The guard
  on the index comes first, the selector is looked at after the period has been read.
\<close>

definition station_depth :: "station_rec \<Rightarrow> int \<Rightarrow> string \<Rightarrow> error + (real \<times> real)" where
  "station_depth mt_obj per_index whichrho =
     (if per_index \<ge> int (length (freq mt_obj)) then Inl IndexOutOfRange
      else
        (case py_get (freq mt_obj) per_index of Inl e \<Rightarrow> Inl e | Inr f \<Rightarrow>
        let per = 1 / f in
        if whichrho = ''zxy'' then
          (case py_get (resistivity mt_obj) per_index of Inl e \<Rightarrow> Inl e | Inr r \<Rightarrow>
             Inr (per, - scale_param * sqrt (res_xy r * per)))
        else if whichrho = ''zyx'' then
          (case py_get (resistivity mt_obj) per_index of Inl e \<Rightarrow> Inl e | Inr r \<Rightarrow>
             Inr (per, - scale_param * sqrt (res_yx r * per)))
        else if whichrho = ''det'' then
          (case py_get (det mt_obj) per_index of Inl e \<Rightarrow> Inl e | Inr d \<Rightarrow>
             let det2 = cmod d in
             Inr (per, - scale_param * sqrt (0.2 * per * det2 * per)))
        else Inl (SystemExit 100)))"

text \<open>
  The loop over the files, with the four lists it appends to as its state
  (stations, periods, pendep, latlons).
\<close>

type_synonym depth_state = "string list \<times> real list \<times> real list \<times> (real \<times> real) list"

fun depth_loop :: "station_rec list \<Rightarrow> int \<Rightarrow> string \<Rightarrow> depth_state \<Rightarrow> error + depth_state" where
  "depth_loop [] per_index whichrho st = Inr st"
| "depth_loop (mt_obj # rest) per_index whichrho (stations, periods, pendep, latlons) =
     (case station_depth mt_obj per_index whichrho of
        Inl e \<Rightarrow> Inl e
      | Inr (per, penetration_depth) \<Rightarrow>
          depth_loop rest per_index whichrho
            (stations @ [station mt_obj], periods @ [per],
             pendep @ [penetration_depth], latlons @ [(lat mt_obj, lon mt_obj)]))"

text \<open>
  \<^verbatim>\<open>get_penetration_depth\<close>: after the loop \<^verbatim>\<open>check_period_values(periods)\<close>
  is called as a statement; only its failure (on an empty list) can be seen.
\<close>

definition get_penetration_depth :: "station_rec list \<Rightarrow> int \<Rightarrow> string \<Rightarrow> error + depth_state" where
  "get_penetration_depth edi_file_list per_index whichrho =
     (case depth_loop edi_file_list per_index whichrho ([], [], [], []) of
        Inl e \<Rightarrow> Inl e
      | Inr (stations, periods, pendep, latlons) \<Rightarrow>
          (case check_period_values periods of
             Inl e \<Rightarrow> Inl e
           | Inr _ \<Rightarrow> Inr (stations, periods, pendep, latlons)))"

subsection \<open>Raster compositor\<close>

text \<open>
  The raster is a list of rows of optional cells; \<open>None\<close> is the not-a-number
  sentinel.  \<^verbatim>\<open>np.zeros((rows, cols))\<close> refuses a negative dimension, and
  \<^verbatim>\<open>zdep[:, :] = np.nan\<close> overwrites every cell.
\<close>

type_synonym grid = "real option list list"

definition np_zeros :: "int \<Rightarrow> int \<Rightarrow> error + grid" where
  "np_zeros rows cols =
     (if rows < 0 \<or> cols < 0 then Inl ValueError
      else Inr (replicate (nat rows) (replicate (nat cols) (Some 0))))"

definition fill_nan :: "grid \<Rightarrow> grid" where
  "fill_nan zdep = map (map (\<lambda>_. None)) zdep"

text \<open>
  \<^verbatim>\<open>zdep[r, c] = v\<close>: numpy counts a negative index from the end of its axis and
  raises outside the axis.
\<close>

definition grid_set :: "grid \<Rightarrow> int \<Rightarrow> int \<Rightarrow> real option \<Rightarrow> error + grid" where
  "grid_set zdep r c v =
     (let nr = int (length zdep); r' = (if r < 0 then nr + r else r) in
      if \<not> (0 \<le> r' \<and> r' < nr) then Inl IndexError
      else
        let row = zdep ! nat r'; nc = int (length row); c' = (if c < 0 then nc + c else c) in
        if \<not> (0 \<le> c' \<and> c' < nc) then Inl IndexError
        else Inr (zdep[nat r' := row[nat c' := v]]))"

text \<open>
  The first loop over \<^verbatim>\<open>enumerate(latlons)\<close>: it writes
  \<^verbatim>\<open>np.abs(pendep[iter])\<close> at row \<^verbatim>\<open>zdep.shape[0] - yi - 1\<close>, column
  \<^verbatim>\<open>xi\<close>.  The list \<open>pendep\<close> is consumed in step with \<open>latlons\<close>;
  running out of it is the \<open>IndexError\<close> of \<^verbatim>\<open>pendep[iter]\<close>.
\<close>

fun raster_loop :: "grid \<Rightarrow> real \<Rightarrow> real \<Rightarrow> real \<Rightarrow> (real \<times> real) list \<Rightarrow> real list \<Rightarrow> error + grid" where
  "raster_loop zdep minlat minlon pixelsize [] pendep = Inr zdep"
| "raster_loop zdep minlat minlon pixelsize (pair # rest) pendep =
     (case get_index (fst pair) (snd pair) minlat minlon pixelsize 1 of
        Inl e \<Rightarrow> Inl e
      | Inr (xi, yi) \<Rightarrow>
          (case pendep of
             [] \<Rightarrow> Inl IndexError
           | d # ds \<Rightarrow>
               (case grid_set zdep (int (length zdep) - yi - 1) xi (Some \<bar>d\<bar>) of
                  Inl e \<Rightarrow> Inl e
                | Inr zdep' \<Rightarrow> raster_loop zdep' minlat minlon pixelsize rest ds)))"

subsection \<open>Sample points for the surface interpolator\<close>

text \<open>
  The second loop over \<^verbatim>\<open>enumerate(latlons)\<close> fills \<^verbatim>\<open>points\<close> and
  \<^verbatim>\<open>values\<close>, the arguments of \<^verbatim>\<open>griddata\<close>: the point of a station is
  (\<^verbatim>\<open>zdep.shape[0] - j\<close>, \<^verbatim>\<open>i\<close>) and its value \<^verbatim>\<open>np.abs(pendep[iter])\<close>.
  The first argument \<open>h\<close> is \<^verbatim>\<open>zdep.shape[0]\<close>.  The coordinates are integers
  held in a float array.
\<close>

fun points_loop :: "int \<Rightarrow> real \<Rightarrow> real \<Rightarrow> real \<Rightarrow> (real \<times> real) list \<Rightarrow> real list
    \<Rightarrow> error + ((int \<times> int) list \<times> real list)" where
  "points_loop h minlat minlon pixelsize [] pendep = Inr ([], [])"
| "points_loop h minlat minlon pixelsize (pair # rest) pendep =
     (case get_index (fst pair) (snd pair) minlat minlon pixelsize 1 of
        Inl e \<Rightarrow> Inl e
      | Inr (i, j) \<Rightarrow>
          (case pendep of
             [] \<Rightarrow> Inl IndexError
           | d # ds \<Rightarrow>
               (case points_loop h minlat minlon pixelsize rest ds of
                  Inl e \<Rightarrow> Inl e
                | Inr (points, values) \<Rightarrow> Inr ((h - j, i) # points, \<bar>d\<bar> # values))))"

subsection \<open>The plotting pipelines\<close>

text \<open>
  \<^verbatim>\<open>plot_latlon_depth_profile\<close> and \<^verbatim>\<open>plot_gridded_profile\<close> contain the same
  text from \<^verbatim>\<open>bbox=get_bounding_box(latlons)\<close> to the call of \<^verbatim>\<open>griddata\<close>;
  \<open>latlon_raster\<close> is that text.  It returns what is handed to the external
  collaborators: the raster \<open>zdep\<close> shown by \<^verbatim>\<open>imshow\<close>, and the \<open>points\<close> and
  \<open>values\<close> given to \<^verbatim>\<open>griddata\<close>.  Rendering and the interpolation itself
  belong to matplotlib and scipy and are not modelled.
\<close>

definition latlon_raster :: "(real \<times> real) list \<Rightarrow> real list
    \<Rightarrow> error + (grid \<times> (int \<times> int) list \<times> real list)" where
  "latlon_raster latlons pendep =
     (case get_bounding_box latlons of
        Inl e \<Rightarrow> Inl e
      | Inr bbox \<Rightarrow>
          let xgrids = snd (fst bbox) - fst (fst bbox);
              ygrids = snd (snd bbox) - fst (snd bbox);
              minlat = fst (snd bbox);
              minlon = fst (fst bbox);
              pixelsize = 0.002;
              nx = \<lceil>xgrids / pixelsize\<rceil>;
              ny = \<lceil>ygrids / pixelsize\<rceil>;
              pad = 4;
              nx2 = nx + pad;
              ny2 = ny + pad
          in
            (case np_zeros ny2 nx2 of
               Inl e \<Rightarrow> Inl e
             | Inr zeros \<Rightarrow>
                 (case raster_loop (fill_nan zeros) minlat minlon pixelsize latlons pendep of
                    Inl e \<Rightarrow> Inl e
                  | Inr zdep \<Rightarrow>
                      (case points_loop (int (length zdep)) minlat minlon pixelsize latlons pendep of
                         Inl e \<Rightarrow> Inl e
                       | Inr (points, values) \<Rightarrow> Inr (zdep, points, values)))))"

text \<open>
  \<^verbatim>\<open>plot_latlon_depth_profile\<close>: the period check is a gate, a \<open>False\<close> raises.
  The files of the directory are given parsed.
\<close>

definition plot_latlon_depth_profile :: "station_rec list \<Rightarrow> int \<Rightarrow> string
    \<Rightarrow> error + (grid \<times> (int \<times> int) list \<times> real list)" where
  "plot_latlon_depth_profile edifiles period_index zcomponent =
     (case get_penetration_depth edifiles period_index zcomponent of
        Inl e \<Rightarrow> Inl e
      | Inr (stations, periods, pendep, latlons) \<Rightarrow>
          (case check_period_values periods of
             Inl e \<Rightarrow> Inl e
           | Inr equal \<Rightarrow>
               if equal = False then Inl PeriodsNotEqual
               else
                 (case py_get periods 0 of
                    Inl e \<Rightarrow> Inl e
                  | Inr Period0 \<Rightarrow> latlon_raster latlons pendep)))"

text \<open>
  \<^verbatim>\<open>plot_gridded_profile\<close>: no period check of its own; \<^verbatim>\<open>periods[0]\<close> is read
  for the title after the interpolation.
\<close>

definition plot_gridded_profile :: "station_rec list \<Rightarrow> int \<Rightarrow> string
    \<Rightarrow> error + (grid \<times> (int \<times> int) list \<times> real list)" where
  "plot_gridded_profile edifiles period_index zcomponent =
     (case get_penetration_depth edifiles period_index zcomponent of
        Inl e \<Rightarrow> Inl e
      | Inr (stations, periods, pendep, latlons) \<Rightarrow>
          (case latlon_raster latlons pendep of
             Inl e \<Rightarrow> Inl e
           | Inr (zdep, points, values) \<Rightarrow>
               (case py_get periods 0 of
                  Inl e \<Rightarrow> Inl e
                | Inr p0 \<Rightarrow> Inr (zdep, points, values))))"

subsection \<open>CSV batch export\<close>

text \<open>
  Multiplication of two one-dimensional numpy arrays: equal lengths, or one of them
  of length one, which is broadcast.
\<close>

definition np_mul :: "real list \<Rightarrow> real list \<Rightarrow> error + real list" where
  "np_mul xs ys =
     (if length xs = length ys then Inr (map2 (*) xs ys)
      else if length xs = 1 then Inr (map ((*) (hd xs)) ys)
      else if length ys = 1 then Inr (map (\<lambda>x. x * hd ys) xs)
      else Inl ValueError)"

text \<open>
  \<^verbatim>\<open>get_penetration_depths_from_edi_file(edifile, rholist)\<close>: the depths at all
  periods of one station.  Each of the three \<^verbatim>\<open>if\<close> statements overwrites
  \<^verbatim>\<open>penetration_depth\<close>; if none fires the variable is unbound at the return.
\<close>

definition depth_of_product :: "error + real list \<Rightarrow> error + real list option" where
  "depth_of_product product =
     (case product of Inl e \<Rightarrow> Inl e | Inr v \<Rightarrow> Inr (Some (map (\<lambda>x. scale_param * sqrt x) v)))"

definition get_penetration_depths_from_edi_file :: "station_rec \<Rightarrow> string list
    \<Rightarrow> error + (real \<times> real \<times> real list \<times> real list)" where
  "get_penetration_depths_from_edi_file mt_obj rholist =
     (let freqs = freq mt_obj;
          periods = map (\<lambda>f. 1 / f) freqs
      in
        (case (if ''zxy'' \<in> set rholist
               then depth_of_product (np_mul (map res_xy (resistivity mt_obj)) periods)
               else Inr None) of
           Inl e \<Rightarrow> Inl e
         | Inr pd1 \<Rightarrow>
        (case (if ''zyx'' \<in> set rholist
               then depth_of_product (np_mul (map res_yx (resistivity mt_obj)) periods)
               else Inr pd1) of
           Inl e \<Rightarrow> Inl e
         | Inr pd2 \<Rightarrow>
        (case (if ''det'' \<in> set rholist
               then (let det2 = map cmod (det mt_obj) in
                     (case np_mul (map ((*) 0.2) periods) det2 of
                        Inl e \<Rightarrow> Inl e
                      | Inr a \<Rightarrow> depth_of_product (np_mul a periods)))
               else Inr pd2) of
           Inl e \<Rightarrow> Inl e
         | Inr pd3 \<Rightarrow>
        (case pd3 of
           None \<Rightarrow> Inl UnboundLocalError
         | Some penetration_depth \<Rightarrow>
             Inr (lat mt_obj, lon mt_obj, periods, penetration_depth))))))"

text \<open>\<^verbatim>\<open>','.join(['%.2f' % num for num in depths])\<close>, the number format a parameter.\<close>

fun join_comma :: "string list \<Rightarrow> string" where
  "join_comma [] = []"
| "join_comma [s] = s"
| "join_comma (s # t # rest) = s @ '','' @ join_comma (t # rest)"

definition depth_string :: "(real \<Rightarrow> string) \<Rightarrow> real list \<Rightarrow> string" where
  "depth_string fmt depths = join_comma (map fmt depths)"

text \<open>
  The loop of \<^verbatim>\<open>create_csv_file\<close>.  Its state is the reference period list
  \<^verbatim>\<open>PER_LIST0\<close> (\<open>None\<close> before the first file), the rows \<^verbatim>\<open>latlon_dep\<close>,
  and the lines written with \<^verbatim>\<open>logger.error\<close>.  The function returns the rows; the
  write of the csv file is left out.
\<close>

datatype log_entry = MT_Periods_Not_Equal "real list" "real list"

type_synonym csv_row = "real \<times> real \<times> string"

type_synonym csv_state = "real list option \<times> csv_row list \<times> log_entry list"

fun csv_loop :: "(real \<Rightarrow> string) \<Rightarrow> station_rec list \<Rightarrow> csv_state \<Rightarrow> error + csv_state" where
  "csv_loop fmt [] st = Inr st"
| "csv_loop fmt (afile # rest) (PER_LIST0, latlon_dep, logged) =
     (case get_penetration_depths_from_edi_file afile [''det''] of
        Inl e \<Rightarrow> Inl e
      | Inr (la, lo, per, depths) \<Rightarrow>
          (case PER_LIST0 of
             None \<Rightarrow>
               csv_loop fmt rest (Some per, latlon_dep @ [(la, lo, depth_string fmt depths)], logged)
           | Some p0 \<Rightarrow>
               if length per = length p0 \<and> list_all2 (=) per p0
               then csv_loop fmt rest (Some p0, latlon_dep @ [(la, lo, depth_string fmt depths)], logged)
               else csv_loop fmt rest (Some p0, latlon_dep, logged @ [MT_Periods_Not_Equal per p0])))"

definition create_csv_file :: "(real \<Rightarrow> string) \<Rightarrow> station_rec list \<Rightarrow> error + (csv_row list \<times> log_entry list)" where
  "create_csv_file fmt edi_files =
     (case csv_loop fmt edi_files (None, [], []) of
        Inl e \<Rightarrow> Inl e
      | Inr (PER_LIST0, latlon_dep, logged) \<Rightarrow> Inr (latlon_dep, logged))"

subsection \<open>Command line\<close>

text \<open>
  The \<^verbatim>\<open>__main__\<close> block.  \<open>argv\<close> is \<^verbatim>\<open>sys.argv\<close>, the script name first.
  The file system and the parser are parameters: \<open>isdir\<close> is
  \<^verbatim>\<open>os.path.isdir\<close>, \<open>read_dir\<close> gives the parsed \<^verbatim>\<open>*.edi\<close> files of a
  directory, \<open>py_int\<close> is \<^verbatim>\<open>int()\<close> on a string.  A run ends by
  \<^verbatim>\<open>sys.exit\<close>, by an exception no one catches, or by reaching the end of the
  script; the interpreter turns these into the exit status of the process.
\<close>

datatype outcome = Exited int | Uncaught error | Completed

definition exit_status :: "outcome \<Rightarrow> int" where
  "exit_status out = (case out of Exited n \<Rightarrow> n | Uncaught e \<Rightarrow> 1 | Completed \<Rightarrow> 0)"

definition outcome_of :: "error + 'a \<Rightarrow> outcome" where
  "outcome_of res =
     (case res of Inl (SystemExit n) \<Rightarrow> Exited n | Inl e \<Rightarrow> Uncaught e | Inr _ \<Rightarrow> Completed)"

definition main :: "(string \<Rightarrow> bool) \<Rightarrow> (string \<Rightarrow> station_rec list) \<Rightarrow> (string \<Rightarrow> error + int)
    \<Rightarrow> string list \<Rightarrow> outcome" where
  "main isdir read_dir py_int argv =
     (if length argv < 2 then Exited 1
      else if isdir (argv ! 1) then
        (case py_get argv 2 of
           Inl e \<Rightarrow> Uncaught e
         | Inr a2 \<Rightarrow>
             (case py_int a2 of
                Inl e \<Rightarrow> Uncaught e
              | Inr period_index \<Rightarrow>
                  outcome_of (plot_latlon_depth_profile (read_dir (argv ! 1)) period_index ''det'')))
      else Completed)"

subsection \<open>Notions used in the statements\<close>

text \<open>
  A raster has shape (h, w) when it has h rows of w cells each.
\<close>

definition grid_shape :: "grid \<Rightarrow> nat \<Rightarrow> nat \<Rightarrow> bool" where
  "grid_shape zdep h w \<longleftrightarrow> length zdep = h \<and> list_all (\<lambda>row. length row = w) zdep"

text \<open>
  The cell the specification assigns to a station in a raster of height \<open>h\<close>:
  row = grid_height - iy - 1, column = ix, with (ix, iy) the pixel index of the
  station for offset 1.
\<close>

definition raster_cell :: "int \<Rightarrow> real \<Rightarrow> real \<Rightarrow> real \<Rightarrow> real \<times> real \<Rightarrow> int \<times> int" where
  "raster_cell h minlat minlon pixelsize pair =
     (let ix = py_round ((snd pair - minlon) / pixelsize) + 1;
          iy = py_round ((fst pair - minlat) / pixelsize) + 1
      in (h - iy - 1, ix))"

text \<open>
  The shape of the raster built for a set of coordinates, (ny + pad, nx + pad) with
  pad = 4 and a pixel of 0.002 degrees, and the cell of a station in it.
\<close>

definition grid_height :: "(real \<times> real) list \<Rightarrow> int" where
  "grid_height latlons = \<lceil>(Max (fst ` set latlons) - Min (fst ` set latlons)) / 0.002\<rceil> + 4"

definition grid_width :: "(real \<times> real) list \<Rightarrow> int" where
  "grid_width latlons = \<lceil>(Max (snd ` set latlons) - Min (snd ` set latlons)) / 0.002\<rceil> + 4"

definition station_cell :: "(real \<times> real) list \<Rightarrow> real \<times> real \<Rightarrow> int \<times> int" where
  "station_cell latlons pair =
     raster_cell (grid_height latlons) (Min (fst ` set latlons)) (Min (snd ` set latlons)) 0.002 pair"

text \<open>
  The depth as the specification states it for the three selectors, with
  k = sqrt(1 / (2 pi * 4 pi * 10^-7)) and period = 1 / frequency[i].  It is a second
  definition, written from the specification's words, against which the source's
  \<open>station_depth\<close> is compared.
\<close>

definition spec_depth :: "string \<Rightarrow> station_rec \<Rightarrow> nat \<Rightarrow> real" where
  "spec_depth selector s i =
     (let period = 1 / freq s ! i;
          k = sqrt (1 / (2 * pi * (4 * pi * (1 / 10 ^ 7))))
      in if selector = ''zxy'' then k * sqrt (res_xy (resistivity s ! i) * period)
         else if selector = ''zyx'' then k * sqrt (res_yx (resistivity s ! i) * period)
         else k * sqrt (0.2 * period * \<bar>cmod (det s ! i)\<bar> * period))"

text \<open>
  The periods of a station, \<^verbatim>\<open>1.0 / freqs\<close>, and its determinant depths at all
  periods, \<^verbatim>\<open>scale_param * np.sqrt(0.2 * periods * det2 * periods)\<close> taken
  elementwise, for arrays of one length.
\<close>

definition station_periods :: "station_rec \<Rightarrow> real list" where
  "station_periods s = map (\<lambda>f. 1 / f) (freq s)"

definition det_depths :: "station_rec \<Rightarrow> real list" where
  "det_depths s =
     map (\<lambda>(per, d). scale_param * sqrt (0.2 * per * cmod d * per)) (zip (station_periods s) (det s))"

section \<open>Properties\<close>

subsection \<open>Helper lemmas on sequences\<close>

lemma fold_min_Min: "fold min xs (x::real) = Min (set (x # xs))"
  by (rule Min.set_eq_fold [symmetric])

lemma fold_max_Max: "fold max xs (x::real) = Max (set (x # xs))"
  by (rule Max.set_eq_fold [symmetric])

lemma py_min_Cons: "py_min (x # xs) = Inr (Min (set (x # xs)))"
  unfolding py_min_def by (simp only: list.case fold_min_Min)

lemma py_max_Cons: "py_max (x # xs) = Inr (Max (set (x # xs)))"
  unfolding py_max_def by (simp only: list.case fold_max_Max)

lemma period_scan_iff: "period_scan p0 xs \<longleftrightarrow> (\<forall>x \<in> set xs. x = p0)"
  by (induction xs) auto

lemma Min_le_Max_image:
  fixes f :: "'a \<Rightarrow> real"
  assumes "xs \<noteq> []"
  shows "Min (f ` set xs) \<le> Max (f ` set xs)"
proof -
  from assms have "f (hd xs) \<in> f ` set xs" by simp
  then have "Min (f ` set xs) \<le> f (hd xs)" and "f (hd xs) \<le> Max (f ` set xs)"
    by (simp_all only: Min_le Max_ge finite_imageI finite_set)
  then show ?thesis by linarith
qed

lemma get_bounding_box_nonempty:
  assumes "latlons \<noteq> []"
  shows "get_bounding_box latlons =
           Inr ((Min (snd ` set latlons), Max (snd ` set latlons)),
                (Min (fst ` set latlons), Max (fst ` set latlons)))"
proof -
  from assms obtain p ps where l: "latlons = p # ps" by (cases latlons) auto
  show ?thesis
    unfolding get_bounding_box_def Let_def l list.map py_min_Cons py_max_Cons sum.case
    by (simp only: set_map [symmetric] list.map)
qed

subsection \<open>Claim C5\<close>

text \<open>
  C5. For every non-empty list of periods, \<open>check_period_values\<close> returns \<open>True\<close>
  exactly when every element equals the first one (plain equality, no tolerance);
  it returns \<open>True\<close> on [8.0, 8.0, 8.0] and \<open>False\<close> on [8.0, 8.0001, 8.0].
\<close>

theorem check_period_values_iff:
  "(period_list \<noteq> [] \<longrightarrow>
      check_period_values period_list = Inr (\<forall>per \<in> set period_list. per = hd period_list))
   \<and> check_period_values [8, 8, 8] = Inr True
   \<and> check_period_values [8, 80001 / 10000, 8] = Inr False"
proof (intro conjI impI)
  assume "period_list \<noteq> []"
  then obtain p0 rest where "period_list = p0 # rest" by (cases period_list) auto
  then show "check_period_values period_list = Inr (\<forall>per \<in> set period_list. per = hd period_list)"
    by (simp add: check_period_values_def period_scan_iff)
next
  show "check_period_values [8, 8, 8] = Inr True"
    by (simp add: check_period_values_def)
next
  show "check_period_values [8, 80001 / 10000, 8] = Inr False"
    by (simp add: check_period_values_def)
qed

theorem check_period_values_iff_witness:
  "[3, 3, 5 :: real] \<noteq> [] \<and> check_period_values [3, 3, 5] = Inr False"
  using check_period_values_iff [of "[3, 3, 5]"] by simp

subsection \<open>Claim C7\<close>

text \<open>
  C7. For every non-empty list of (latitude, longitude) pairs, \<open>get_bounding_box\<close>
  returns ((min_lon, max_lon), (min_lat, max_lat)), the least and greatest longitude
  and latitude of the list, with min \<open>\<le>\<close> max on both axes; on
  [(10,20),(15,25),(5,30)] it returns ((20,30),(5,15)); on a single coordinate the box
  is degenerate; on the empty list it fails (the \<open>ValueError\<close> of \<^verbatim>\<open>min()\<close> on an
  empty sequence is the failure the specification calls EmptyInput).
\<close>

theorem get_bounding_box_correct:
  "(latlons \<noteq> [] \<longrightarrow>
      (\<exists>minlon maxlon minlat maxlat.
         get_bounding_box latlons = Inr ((minlon, maxlon), (minlat, maxlat))
         \<and> minlon = Min (snd ` set latlons) \<and> maxlon = Max (snd ` set latlons)
         \<and> minlat = Min (fst ` set latlons) \<and> maxlat = Max (fst ` set latlons)
         \<and> minlon \<le> maxlon \<and> minlat \<le> maxlat))
   \<and> get_bounding_box [(10, 20), (15, 25), (5, 30)] = Inr ((20, 30), (5, 15))
   \<and> get_bounding_box [(la, lo)] = Inr ((lo, lo), (la, la))
   \<and> get_bounding_box [] = Inl ValueError"
proof (intro conjI impI)
  assume ne: "latlons \<noteq> []"
  have "Min (snd ` set latlons) \<le> Max (snd ` set latlons)"
    using ne by (rule Min_le_Max_image)
  moreover have "Min (fst ` set latlons) \<le> Max (fst ` set latlons)"
    using ne by (rule Min_le_Max_image)
  ultimately show "\<exists>minlon maxlon minlat maxlat.
         get_bounding_box latlons = Inr ((minlon, maxlon), (minlat, maxlat))
         \<and> minlon = Min (snd ` set latlons) \<and> maxlon = Max (snd ` set latlons)
         \<and> minlat = Min (fst ` set latlons) \<and> maxlat = Max (fst ` set latlons)
         \<and> minlon \<le> maxlon \<and> minlat \<le> maxlat"
    using get_bounding_box_nonempty [OF ne] by simp
next
  show "get_bounding_box [(10, 20), (15, 25), (5, 30)] = Inr ((20, 30), (5, 15))"
    by (simp add: get_bounding_box_def py_min_def py_max_def)
next
  show "get_bounding_box [(la, lo)] = Inr ((lo, lo), (la, la))"
    by (simp add: get_bounding_box_def py_min_def py_max_def)
next
  show "get_bounding_box [] = Inl ValueError"
    by (simp add: get_bounding_box_def py_min_def)
qed

theorem get_bounding_box_correct_witness:
  "[(1, 2), (3, 0)] \<noteq> ([] :: (real \<times> real) list) \<and> get_bounding_box [(1, 2), (3, 0)] = Inr ((0, 2), (1, 3))"
  using get_bounding_box_correct [of "[(1, 2), (3, 0)]"] by simp

subsection \<open>Helper lemmas on rounding\<close>

lemma py_round_nearest: "\<bar>real_of_int (py_round x) - x\<bar> \<le> 1 / 2"
proof (cases "0 \<le> x")
  case True
  have "real_of_int \<lfloor>x + 1 / 2\<rfloor> \<le> x + 1 / 2" and "x + 1 / 2 < real_of_int \<lfloor>x + 1 / 2\<rfloor> + 1"
    by linarith+
  moreover from True have "py_round x = \<lfloor>x + 1 / 2\<rfloor>" by (simp add: py_round_def)
  ultimately show ?thesis by linarith
next
  case False
  have "x - 1 / 2 \<le> real_of_int \<lceil>x - 1 / 2\<rceil>" and "real_of_int \<lceil>x - 1 / 2\<rceil> < x - 1 / 2 + 1"
    by linarith+
  moreover from False have "py_round x = \<lceil>x - 1 / 2\<rceil>" by (simp add: py_round_def)
  ultimately show ?thesis by linarith
qed

lemma py_round_nonneg: "0 \<le> x \<Longrightarrow> 0 \<le> py_round x"
  unfolding py_round_def by simp

lemma py_round_le_ceiling: "0 \<le> x \<Longrightarrow> x \<le> y \<Longrightarrow> py_round x \<le> \<lceil>y\<rceil>"
  unfolding py_round_def by simp linarith

subsection \<open>Helper lemmas on double-precision rounding\<close>

lemma pow2_powr: "pow2 e = 2 powr real_of_int e"
proof (cases "0 \<le> e")
  case True
  then show ?thesis by (simp add: pow2_def powr_realpow [symmetric])
next
  case False
  then have "2 powr real_of_int e = 2 powr (- real (nat (- e)))" by simp
  also have "\<dots> = 1 / 2 ^ nat (- e)"
    by (simp only: powr_minus powr_realpow [OF zero_less_numeral] inverse_eq_divide)
  finally show ?thesis using False by (simp add: pow2_def)
qed

lemma pow2_pos: "0 < pow2 e"
  by (simp add: pow2_powr)

lemma pow2_add: "pow2 (a + b) = pow2 a * pow2 b"
  by (simp add: pow2_powr powr_add)

lemma binade_bounds:
  assumes "x \<noteq> 0"
  shows "pow2 (binade x) \<le> \<bar>x\<bar>" and "\<bar>x\<bar> < pow2 (binade x + 1)"
proof -
  have pos: "0 < \<bar>x\<bar>" using assms by simp
  have "real_of_int \<lfloor>log 2 \<bar>x\<bar>\<rfloor> \<le> log 2 \<bar>x\<bar>" by simp
  then have "2 powr real_of_int \<lfloor>log 2 \<bar>x\<bar>\<rfloor> \<le> 2 powr log 2 \<bar>x\<bar>" by simp
  then show "pow2 (binade x) \<le> \<bar>x\<bar>" using pos by (simp add: pow2_powr binade_def)
  have "log 2 \<bar>x\<bar> < real_of_int (\<lfloor>log 2 \<bar>x\<bar>\<rfloor> + 1)" by linarith
  then have "2 powr log 2 \<bar>x\<bar> < 2 powr real_of_int (\<lfloor>log 2 \<bar>x\<bar>\<rfloor> + 1)" by simp
  then show "\<bar>x\<bar> < pow2 (binade x + 1)" using pos by (simp add: pow2_powr binade_def)
qed

lemma binade_eq:
  assumes "pow2 e \<le> \<bar>x\<bar>" and "\<bar>x\<bar> < pow2 (e + 1)"
  shows "binade x = e"
proof -
  have pos: "0 < \<bar>x\<bar>" using assms(1) pow2_pos [of e] by linarith
  have "2 powr real_of_int e \<le> \<bar>x\<bar>" "\<bar>x\<bar> < 2 powr (real_of_int e + 1)"
    using assms by (simp_all add: pow2_powr)
  then have "\<lfloor>log 2 \<bar>x\<bar>\<rfloor> = e"
    using pos by (subst floor_log_eq_powr_iff) simp_all
  then show ?thesis by (simp add: binade_def)
qed

lemma round_half_even_nearest: "\<bar>real_of_int (round_half_even y) - y\<bar> \<le> 1 / 2"
proof -
  obtain f where f: "f = \<lfloor>y\<rfloor>" by simp
  have b: "real_of_int f \<le> y" "y < real_of_int f + 1" unfolding f by linarith+
  have "round_half_even y = f \<and> y - real_of_int f \<le> 1 / 2
        \<or> round_half_even y = f + 1 \<and> 1 / 2 \<le> y - real_of_int f"
    unfolding round_half_even_def Let_def f [symmetric] by auto
  with b show ?thesis by (auto simp: abs_if)
qed

lemma double_round_error: "\<bar>double_round x - x\<bar> \<le> \<bar>x\<bar> / 2 ^ 53"
proof (cases "x = 0")
  case True
  then show ?thesis by (simp add: double_round_def)
next
  case False
  let ?u = "pow2 (binade x - 52)"
  have u: "0 < ?u" by (rule pow2_pos)
  have "double_round x - x = (real_of_int (round_half_even (x / ?u)) - x / ?u) * ?u"
    using False u by (simp add: double_round_def Let_def field_simps)
  then have "\<bar>double_round x - x\<bar> = \<bar>real_of_int (round_half_even (x / ?u)) - x / ?u\<bar> * ?u"
    using u by (simp add: abs_mult)
  also have "\<dots> \<le> (1 / 2) * ?u"
    using round_half_even_nearest [of "x / ?u"] u by (intro mult_right_mono) simp_all
  also have "(1 / 2) * ?u = pow2 (binade x) / 2 ^ 53"
  proof -
    have "pow2 (binade x) = pow2 ((binade x - 52) + 52)" by simp
    also have "\<dots> = ?u * pow2 52" by (rule pow2_add)
    finally show ?thesis by (simp add: pow2_def)
  qed
  also have "\<dots> \<le> \<bar>x\<bar> / 2 ^ 53"
    using binade_bounds(1) [OF False] by (simp add: divide_right_mono)
  finally show ?thesis .
qed


lemma double_round_eval:
  assumes "pow2 e \<le> \<bar>x\<bar>" and "\<bar>x\<bar> < pow2 (e + 1)"
  shows "double_round x = real_of_int (round_half_even (x / pow2 (e - 52))) * pow2 (e - 52)"
proof -
  have "x \<noteq> 0" using assms(1) pow2_pos [of e] by auto
  moreover have "binade x = e" using assms by (rule binade_eq)
  ultimately show ?thesis by (simp add: double_round_def Let_def)
qed

lemma double_round_0: "double_round 0 = 0"
  by (simp add: double_round_def)

lemma dr_lon: "double_round (5188146770730811 / 576460752303423488) = 5188146770730811 / 576460752303423488"
proof -
  have "double_round (5188146770730811 / 576460752303423488)
          = real_of_int (round_half_even ((5188146770730811 / 576460752303423488) / pow2 (- 7 - 52))) * pow2 (- 7 - 52)"
    by (rule double_round_eval) (simp_all add: pow2_def)
  also have "\<dots> = 5188146770730811 / 576460752303423488"
    by (simp add: pow2_def round_half_even_def Let_def)
  finally show ?thesis .
qed

lemma dr_quot: "double_round ((5188146770730811 / 576460752303423488) / (1152921504606847 / 576460752303423488)) = 9 / 2"
proof -
  let ?q = "(5188146770730811 / 576460752303423488) / (1152921504606847 / 576460752303423488) :: real"
  have "double_round ?q = real_of_int (round_half_even (?q / pow2 (2 - 52))) * pow2 (2 - 52)"
    by (rule double_round_eval) (simp_all add: pow2_def)
  also have "\<dots> = 9 / 2"
    by (simp add: pow2_def round_half_even_def Let_def)
  finally show ?thesis .
qed

lemma dr_quot_normal: "double_round (5188146770730811 / 1152921504606847) = 9 / 2"
  using dr_quot by simp

lemma get_index_double_tie:
  "get_index_double 0 (5188146770730811 / 576460752303423488) 0 0 (1152921504606847 / 576460752303423488) 1
     = Inr (6, 1)"
  by (simp add: get_index_double_def Let_def dr_lon dr_quot_normal double_round_0 py_round_def)

lemma double_literals:
  "double_round (9 / 1000) = 5188146770730811 / 576460752303423488"
  "double_round (2 / 1000) = 1152921504606847 / 576460752303423488"
proof -
  have "double_round (9 / 1000) = real_of_int (round_half_even ((9 / 1000) / pow2 (- 7 - 52))) * pow2 (- 7 - 52)"
    by (rule double_round_eval) (simp_all add: pow2_def)
  also have "\<dots> = 5188146770730811 / 576460752303423488"
    by (simp add: pow2_def round_half_even_def Let_def)
  finally show "double_round (9 / 1000) = 5188146770730811 / 576460752303423488" .
  have "double_round (2 / 1000) = real_of_int (round_half_even ((2 / 1000) / pow2 (- 9 - 52))) * pow2 (- 9 - 52)"
    by (rule double_round_eval) (simp_all add: pow2_def)
  also have "\<dots> = 1152921504606847 / 576460752303423488"
    by (simp add: pow2_def round_half_even_def Let_def)
  finally show "double_round (2 / 1000) = 1152921504606847 / 576460752303423488" .
qed

lemma inverse_within_slack:
  assumes p: "0 < p"
  shows "\<bar>(real_of_int (py_round (double_round (double_round (c - m) / p)) + off - off) * p + m) - c\<bar>
           \<le> p / 2 + \<bar>c - m\<bar> / 2 ^ 51"
proof -
  let ?d = "c - m"
  let ?dh = "double_round ?d"
  let ?qh = "double_round (?dh / p)"
  let ?n = "real_of_int (py_round ?qh)"
  have e1: "\<bar>?dh - ?d\<bar> \<le> \<bar>?d\<bar> / 2 ^ 53" by (rule double_round_error)
  then have dh: "\<bar>?dh\<bar> \<le> 2 * \<bar>?d\<bar>" by (simp add: abs_if split: if_splits) 
  have e2: "\<bar>?qh - ?dh / p\<bar> \<le> \<bar>?dh / p\<bar> / 2 ^ 53" by (rule double_round_error)
  have "\<bar>?qh - ?dh / p\<bar> * p \<le> (\<bar>?dh / p\<bar> / 2 ^ 53) * p"
    using e2 p by (intro mult_right_mono) simp_all
  moreover have "\<bar>?qh - ?dh / p\<bar> * p = \<bar>?qh * p - ?dh\<bar>"
  proof -
    have "\<bar>?qh - ?dh / p\<bar> * p = \<bar>(?qh - ?dh / p) * p\<bar>" using p by (simp add: abs_mult)
    also have "(?qh - ?dh / p) * p = ?qh * p - ?dh" using p by (simp add: field_simps)
    finally show ?thesis .
  qed
  moreover have "(\<bar>?dh / p\<bar> / 2 ^ 53) * p = \<bar>?dh\<bar> / 2 ^ 53" using p by simp
  ultimately have e3: "\<bar>?qh * p - ?dh\<bar> \<le> \<bar>?dh\<bar> / 2 ^ 53" by simp
  have "\<bar>?n - ?qh\<bar> * p \<le> (1 / 2) * p"
    using py_round_nearest [of ?qh] p by (intro mult_right_mono) simp_all
  moreover have "\<bar>?n - ?qh\<bar> * p = \<bar>?n * p - ?qh * p\<bar>"
  proof -
    have "\<bar>?n - ?qh\<bar> * p = \<bar>(?n - ?qh) * p\<bar>" using p by (simp add: abs_mult)
    also have "(?n - ?qh) * p = ?n * p - ?qh * p" by (simp add: algebra_simps)
    finally show ?thesis .
  qed
  ultimately have e4: "\<bar>?n * p - ?qh * p\<bar> \<le> p / 2" by simp
  have "\<bar>?n * p + m - c\<bar> \<le> \<bar>?n * p - ?qh * p\<bar> + \<bar>?qh * p - ?dh\<bar> + \<bar>?dh - ?d\<bar>"
    by linarith
  also have "\<dots> \<le> p / 2 + \<bar>?dh\<bar> / 2 ^ 53 + \<bar>?d\<bar> / 2 ^ 53"
    using e4 e3 e1 by linarith
  also have "\<dots> \<le> p / 2 + (2 * \<bar>?d\<bar>) / 2 ^ 53 + \<bar>?d\<bar> / 2 ^ 53"
    using dh by (simp add: divide_right_mono)
  also have "\<dots> \<le> p / 2 + \<bar>?d\<bar> / 2 ^ 51"
    by simp
  finally show ?thesis by simp
qed

subsection \<open>Claim C3\<close>

text \<open>
  C3, as stated: for every latitude, longitude, minimum corner, positive pixel size and
  offset, \<open>get_index\<close> returns ix = round((lon - min_lon) / pixel_size) + offset and
  iy = round((lat - min_lat) / pixel_size) + offset, and the inverse transform
  (ix - offset) * pixel_size + min_lon lands within pixel_size / 2 of the original
  coordinate.  The bound fails in the arithmetic of the program.  For the doubles that
  the literals 0.009 and 0.002 denote the exact quotient is a little below 4.5, the
  double quotient is 4.5, \<^verbatim>\<open>round\<close> gives 5 and ix is 6; five pixels from the
  origin is further than half a pixel from the longitude.
\<close>

theorem get_index_round_trip_counterexample:
  "double_round (9 / 1000) = 5188146770730811 / 576460752303423488
   \<and> double_round (2 / 1000) = 1152921504606847 / 576460752303423488
   \<and> get_index_double 0 (5188146770730811 / 576460752303423488) 0 0
        (1152921504606847 / 576460752303423488) 1 = Inr (6, 1)
   \<and> \<not> \<bar>(real_of_int (6 - 1) * (1152921504606847 / 576460752303423488) + 0)
          - 5188146770730811 / 576460752303423488\<bar>
        \<le> (1152921504606847 / 576460752303423488) / 2"
proof (intro conjI)
  show "double_round (9 / 1000) = 5188146770730811 / 576460752303423488" by (rule double_literals(1))
  show "double_round (2 / 1000) = 1152921504606847 / 576460752303423488" by (rule double_literals(2))
  show "get_index_double 0 (5188146770730811 / 576460752303423488) 0 0
        (1152921504606847 / 576460752303423488) 1 = Inr (6, 1)" by (rule get_index_double_tie)
  show "\<not> \<bar>(real_of_int (6 - 1) * (1152921504606847 / 576460752303423488) + 0)
          - 5188146770730811 / 576460752303423488\<bar>
        \<le> (1152921504606847 / 576460752303423488) / 2" by simp
qed

text \<open>
  C3, amended: for every latitude, longitude, minimum corner, positive pixel size and
  offset, \<open>get_index\<close> returns ix = round(qx) + offset and iy = round(qy) + offset,
  where qx and qy are the quotients (lon - min_lon) / pixel_size and
  (lat - min_lat) / pixel_size as computed in double precision, and round gives an
  integer no further than 1/2 from the computed quotient.  The inverse transform
  (ix - offset) * pixel_size + min_lon lands within
  pixel_size / 2 + |lon - min_lon| / 2^51 of the original longitude, and likewise for
  the latitude: half a pixel up to the rounding of the quotient.  The differences
  and the quotients are taken below 2^1023, where no float operation overflows.
\<close>

theorem get_index_double_round_trip:
  "0 < pixelsize
   \<and> \<bar>lo - minlon\<bar> < 2 ^ 1023 \<and> \<bar>lo - minlon\<bar> < 2 ^ 1023 * pixelsize
   \<and> \<bar>la - minlat\<bar> < 2 ^ 1023 \<and> \<bar>la - minlat\<bar> < 2 ^ 1023 * pixelsize
   \<longrightarrow>
     (\<exists>ix iy. get_index_double la lo minlat minlon pixelsize offset = Inr (ix, iy)
        \<and> ix = py_round (double_round (double_round (lo - minlon) / pixelsize)) + offset
        \<and> iy = py_round (double_round (double_round (la - minlat) / pixelsize)) + offset
        \<and> \<bar>real_of_int (ix - offset) - double_round (double_round (lo - minlon) / pixelsize)\<bar> \<le> 1 / 2
        \<and> \<bar>real_of_int (iy - offset) - double_round (double_round (la - minlat) / pixelsize)\<bar> \<le> 1 / 2
        \<and> \<bar>(real_of_int (ix - offset) * pixelsize + minlon) - lo\<bar>
             \<le> pixelsize / 2 + \<bar>lo - minlon\<bar> / 2 ^ 51
        \<and> \<bar>(real_of_int (iy - offset) * pixelsize + minlat) - la\<bar>
             \<le> pixelsize / 2 + \<bar>la - minlat\<bar> / 2 ^ 51)"
proof
  assume a: "0 < pixelsize
   \<and> \<bar>lo - minlon\<bar> < 2 ^ 1023 \<and> \<bar>lo - minlon\<bar> < 2 ^ 1023 * pixelsize
   \<and> \<bar>la - minlat\<bar> < 2 ^ 1023 \<and> \<bar>la - minlat\<bar> < 2 ^ 1023 * pixelsize"
  then have p: "0 < pixelsize" by (rule conjunct1)
  let ?qx = "double_round (double_round (lo - minlon) / pixelsize)"
  let ?qy = "double_round (double_round (la - minlat) / pixelsize)"
  have gi: "get_index_double la lo minlat minlon pixelsize offset =
          Inr (py_round ?qx + offset, py_round ?qy + offset)"
    using p by (simp add: get_index_double_def Let_def)
  have nx: "\<bar>real_of_int (py_round ?qx + offset - offset) - ?qx\<bar> \<le> 1 / 2"
    using py_round_nearest [of ?qx] by simp
  have ny: "\<bar>real_of_int (py_round ?qy + offset - offset) - ?qy\<bar> \<le> 1 / 2"
    using py_round_nearest [of ?qy] by simp
  note bx = inverse_within_slack [OF p, of lo minlon offset]
  note bl = inverse_within_slack [OF p, of la minlat offset]
  show "\<exists>ix iy. get_index_double la lo minlat minlon pixelsize offset = Inr (ix, iy)
        \<and> ix = py_round ?qx + offset
        \<and> iy = py_round ?qy + offset
        \<and> \<bar>real_of_int (ix - offset) - ?qx\<bar> \<le> 1 / 2
        \<and> \<bar>real_of_int (iy - offset) - ?qy\<bar> \<le> 1 / 2
        \<and> \<bar>(real_of_int (ix - offset) * pixelsize + minlon) - lo\<bar>
             \<le> pixelsize / 2 + \<bar>lo - minlon\<bar> / 2 ^ 51
        \<and> \<bar>(real_of_int (iy - offset) * pixelsize + minlat) - la\<bar>
             \<le> pixelsize / 2 + \<bar>la - minlat\<bar> / 2 ^ 51"
    apply (rule exI [of _ "py_round ?qx + offset"])
    apply (rule exI [of _ "py_round ?qy + offset"])
    apply (intro conjI gi refl nx ny bx bl)
    done
qed

theorem get_index_double_round_trip_witness:
  "(0::real) < 1152921504606847 / 576460752303423488
   \<and> get_index_double 0 (5188146770730811 / 576460752303423488) 0 0
        (1152921504606847 / 576460752303423488) 1 = Inr (6, 1)
   \<and> \<bar>(real_of_int (6 - 1) * (1152921504606847 / 576460752303423488) + 0)
          - 5188146770730811 / 576460752303423488\<bar>
        \<le> (1152921504606847 / 576460752303423488) / 2
            + \<bar>5188146770730811 / 576460752303423488 - 0\<bar> / 2 ^ 51"
proof -
  have p: "(0::real) < 1152921504606847 / 576460752303423488" by simp
  have h: "(0::real) < 1152921504606847 / 576460752303423488
     \<and> \<bar>5188146770730811 / 576460752303423488 - (0::real)\<bar> < 2 ^ 1023
     \<and> \<bar>5188146770730811 / 576460752303423488 - (0::real)\<bar> < 2 ^ 1023 * (1152921504606847 / 576460752303423488)
     \<and> \<bar>0 - (0::real)\<bar> < 2 ^ 1023
     \<and> \<bar>0 - (0::real)\<bar> < 2 ^ 1023 * (1152921504606847 / 576460752303423488)"
    by simp
  from get_index_double_round_trip [of "1152921504606847 / 576460752303423488"
         "5188146770730811 / 576460752303423488" 0 0 0 1, THEN mp, OF h]
  obtain ix iy where
    gi: "get_index_double 0 (5188146770730811 / 576460752303423488) 0 0
           (1152921504606847 / 576460752303423488) 1 = Inr (ix, iy)"
    and b: "\<bar>(real_of_int (ix - 1) * (1152921504606847 / 576460752303423488) + 0)
              - 5188146770730811 / 576460752303423488\<bar>
            \<le> (1152921504606847 / 576460752303423488) / 2
                + \<bar>5188146770730811 / 576460752303423488 - 0\<bar> / 2 ^ 51"
    by blast
  from gi have ix: "ix = 6" unfolding get_index_double_tie by simp
  from b have "\<bar>(real_of_int (6 - 1) * (1152921504606847 / 576460752303423488) + 0)
          - 5188146770730811 / 576460752303423488\<bar>
        \<le> (1152921504606847 / 576460752303423488) / 2
            + \<bar>5188146770730811 / 576460752303423488 - 0\<bar> / 2 ^ 51"
    unfolding ix .
  with p get_index_double_tie show ?thesis by (intro conjI)
qed

subsection \<open>Helper lemmas on the raster\<close>



lemma grid_shape_nth: "grid_shape g h w \<Longrightarrow> r < h \<Longrightarrow> length (g ! r) = w"
  by (auto simp: grid_shape_def list_all_length)

lemma grid_set_in_range:
  assumes sh: "grid_shape g h w" and r: "0 \<le> r" "r < int h" and c: "0 \<le> c" "c < int w"
  shows "grid_set g r c v = Inr (g[nat r := (g ! nat r)[nat c := v]])"
proof -
  have "length g = h" using sh by (simp add: grid_shape_def)
  moreover have "length (g ! nat r) = w" using sh r by (intro grid_shape_nth) auto
  ultimately show ?thesis using r c by (simp add: grid_set_def Let_def)
qed

lemma grid_shape_update:
  assumes sh: "grid_shape g h w" and r: "r < h"
  shows "grid_shape (g[r := (g ! r)[c := v]]) h w"
  using assms unfolding grid_shape_def list_all_length
  by (auto simp: nth_list_update)

lemma grid_update_nth:
  assumes sh: "grid_shape g h w" and "r < h" "c < w" "r' < h" "c' < w"
  shows "g[r := (g ! r)[c := v]] ! r' ! c' = (if r' = r \<and> c' = c then v else g ! r' ! c')"
proof -
  have "length g = h" using sh by (simp add: grid_shape_def)
  moreover have "length (g ! r) = w" using sh assms(2) by (rule grid_shape_nth)
  ultimately show ?thesis using assms(2-) by (auto simp: nth_list_update)
qed

lemma get_index_raster_cell:
  assumes "p \<noteq> 0"
  shows "get_index (fst pair) (snd pair) minlat minlon p 1 =
           Inr (snd (raster_cell h minlat minlon p pair),
                h - 1 - fst (raster_cell h minlat minlon p pair))"
  using assms by (simp add: get_index_def raster_cell_def Let_def)


lemma raster_loop_step:
  assumes p: "p \<noteq> 0" and sh: "grid_shape g h w"
    and rc: "raster_cell (int h) minlat minlon p pair = (r, c)"
    and r: "0 \<le> r" "r < int h" and c: "0 \<le> c" "c < int w"
  shows "raster_loop g minlat minlon p (pair # rest) (d # ds) =
           raster_loop (g[nat r := (g ! nat r)[nat c := Some \<bar>d\<bar>]]) minlat minlon p rest ds"
proof -
  have len: "length g = h" using sh by (simp add: grid_shape_def)
  have gi: "get_index (fst pair) (snd pair) minlat minlon p 1 = Inr (c, int h - 1 - r)"
    using get_index_raster_cell [OF p, of pair minlat minlon "int h"] rc by simp
  have "int (length g) - (int h - 1 - r) - 1 = r" using len by simp
  then show ?thesis
    using grid_set_in_range [OF sh r c, of "Some \<bar>d\<bar>"] gi by simp
qed

lemma raster_loop_writes:
  assumes p: "p \<noteq> 0"
  shows "grid_shape g h w \<Longrightarrow> length pendep = length latlons \<Longrightarrow>
     (\<forall>pair \<in> set latlons.
        0 \<le> fst (raster_cell (int h) minlat minlon p pair) \<and> fst (raster_cell (int h) minlat minlon p pair) < int h \<and>
        0 \<le> snd (raster_cell (int h) minlat minlon p pair) \<and> snd (raster_cell (int h) minlat minlon p pair) < int w) \<Longrightarrow>
     \<exists>g'. raster_loop g minlat minlon p latlons pendep = Inr g' \<and> grid_shape g' h w
       \<and> (\<forall>r<h. \<forall>c<w. (\<forall>k<length latlons. raster_cell (int h) minlat minlon p (latlons ! k) \<noteq> (int r, int c))
              \<longrightarrow> g' ! r ! c = g ! r ! c)
       \<and> (\<forall>k<length latlons.
             (\<forall>k'<length latlons. k < k' \<longrightarrow>
                 raster_cell (int h) minlat minlon p (latlons ! k') \<noteq> raster_cell (int h) minlat minlon p (latlons ! k))
             \<longrightarrow> g' ! nat (fst (raster_cell (int h) minlat minlon p (latlons ! k)))
                    ! nat (snd (raster_cell (int h) minlat minlon p (latlons ! k))) = Some \<bar>pendep ! k\<bar>)"
proof (induction latlons arbitrary: g pendep)
  case Nil
  then show ?case by simp
next
  case (Cons pair rest)
  let ?cell = "raster_cell (int h) minlat minlon p"
  from Cons.prems(2) obtain d ds where pd: "pendep = d # ds" and lds: "length ds = length rest"
    by (cases pendep) auto
  obtain r c where rc: "?cell pair = (r, c)" by (cases "?cell pair")
  from Cons.prems(3) rc have r: "0 \<le> r" "r < int h" and c: "0 \<le> c" "c < int w" by auto
  let ?g1 = "g[nat r := (g ! nat r)[nat c := Some \<bar>d\<bar>]]"
  have rn: "nat r < h" and cn: "nat c < w" using r c by auto
  have sh1: "grid_shape ?g1 h w" using Cons.prems(1) rn by (rule grid_shape_update)
  have step: "raster_loop g minlat minlon p (pair # rest) pendep = raster_loop ?g1 minlat minlon p rest ds"
    unfolding pd using p Cons.prems(1) rc r c by (rule raster_loop_step)
  have inr: "\<forall>pair \<in> set rest. 0 \<le> fst (?cell pair) \<and> fst (?cell pair) < int h \<and>
        0 \<le> snd (?cell pair) \<and> snd (?cell pair) < int w"
    using Cons.prems(3) by simp
  from Cons.IH [OF sh1 lds inr] obtain g' where
    run: "raster_loop ?g1 minlat minlon p rest ds = Inr g'" and sh': "grid_shape g' h w"
    and untouched: "\<And>r' c'. r' < h \<Longrightarrow> c' < w \<Longrightarrow> (\<forall>k<length rest. ?cell (rest ! k) \<noteq> (int r', int c'))
              \<Longrightarrow> g' ! r' ! c' = ?g1 ! r' ! c'"
    and lastw: "\<And>k. k < length rest \<Longrightarrow> (\<forall>k'<length rest. k < k' \<longrightarrow> ?cell (rest ! k') \<noteq> ?cell (rest ! k))
             \<Longrightarrow> g' ! nat (fst (?cell (rest ! k))) ! nat (snd (?cell (rest ! k))) = Some \<bar>ds ! k\<bar>"
    by blast
  have A: "g' ! r' ! c' = g ! r' ! c'"
    if "r' < h" "c' < w" and no: "\<forall>k<length (pair # rest). ?cell ((pair # rest) ! k) \<noteq> (int r', int c')"
    for r' c'
  proof -
    from no have "?cell pair \<noteq> (int r', int c')" by auto
    with rc have ne: "\<not> (r' = nat r \<and> c' = nat c)" using r c by auto
    from no have "\<forall>k<length rest. ?cell (rest ! k) \<noteq> (int r', int c')" by auto
    then have "g' ! r' ! c' = ?g1 ! r' ! c'" using that(1,2) by (intro untouched)
    also have "\<dots> = g ! r' ! c'"
      using grid_update_nth [OF Cons.prems(1) rn cn that(1,2)] ne by simp
    finally show ?thesis .
  qed
  have B: "g' ! nat (fst (?cell ((pair # rest) ! k))) ! nat (snd (?cell ((pair # rest) ! k))) = Some \<bar>pendep ! k\<bar>"
    if k: "k < length (pair # rest)"
      and later: "\<forall>k'<length (pair # rest). k < k' \<longrightarrow> ?cell ((pair # rest) ! k') \<noteq> ?cell ((pair # rest) ! k)"
    for k
  proof (cases k)
    case 0
    have "\<forall>j<length rest. ?cell (rest ! j) \<noteq> (int (nat r), int (nat c))"
    proof (intro allI impI)
      fix j assume j: "j < length rest"
      from later [rule_format, of "Suc j"] j 0 have "?cell (rest ! j) \<noteq> ?cell pair" by simp
      then show "?cell (rest ! j) \<noteq> (int (nat r), int (nat c))" using rc r c by simp
    qed
    then have "g' ! nat r ! nat c = ?g1 ! nat r ! nat c" using rn cn by (intro untouched)
    also have "\<dots> = Some \<bar>d\<bar>"
      using grid_update_nth [OF Cons.prems(1) rn cn rn cn] by simp
    finally show ?thesis using 0 rc pd by simp
  next
    case (Suc j)
    with k have j: "j < length rest" by simp
    have "\<forall>k'<length rest. j < k' \<longrightarrow> ?cell (rest ! k') \<noteq> ?cell (rest ! j)"
    proof (intro allI impI)
      fix k' assume "k' < length rest" "j < k'"
      with later [rule_format, of "Suc k'"] Suc show "?cell (rest ! k') \<noteq> ?cell (rest ! j)" by simp
    qed
    from lastw [OF j this] show ?thesis using Suc pd by simp
  qed
  have 1: "raster_loop g minlat minlon p (pair # rest) pendep = Inr g'"
    using step run by simp
  have 2: "\<forall>r<h. \<forall>c<w. (\<forall>k<length (pair # rest). ?cell ((pair # rest) ! k) \<noteq> (int r, int c))
              \<longrightarrow> g' ! r ! c = g ! r ! c"
    using A by blast
  have 3: "\<forall>k<length (pair # rest).
             (\<forall>k'<length (pair # rest). k < k' \<longrightarrow> ?cell ((pair # rest) ! k') \<noteq> ?cell ((pair # rest) ! k))
             \<longrightarrow> g' ! nat (fst (?cell ((pair # rest) ! k))) ! nat (snd (?cell ((pair # rest) ! k))) = Some \<bar>pendep ! k\<bar>"
    using B by blast
  show ?case
    by (rule exI [of _ g']) (intro conjI 1 sh' 2 3)
qed


lemma pixel_bounds:
  assumes p: "0 < p" and lo: "m \<le> x" and hi: "x \<le> M"
  shows "0 \<le> py_round ((x - m) / p)" and "py_round ((x - m) / p) \<le> \<lceil>(M - m) / p\<rceil>"
proof -
  have q0: "0 \<le> (x - m) / p" using p lo by simp
  have "x - m \<le> M - m" using hi by simp
  then have q1: "(x - m) / p \<le> (M - m) / p" using p by (simp add: divide_right_mono)
  show "0 \<le> py_round ((x - m) / p)" using q0 by (rule py_round_nonneg)
  show "py_round ((x - m) / p) \<le> \<lceil>(M - m) / p\<rceil>" using q0 q1 by (rule py_round_le_ceiling)
qed

lemma station_cell_in_range:
  assumes "pair \<in> set latlons"
  shows "2 \<le> fst (station_cell latlons pair)" and "fst (station_cell latlons pair) < grid_height latlons - 1"
    and "1 \<le> snd (station_cell latlons pair)" and "snd (station_cell latlons pair) < grid_width latlons - 2"
proof -
  have p: "(0::real) < 0.002" by simp
  have fin: "finite (fst ` set latlons)" "finite (snd ` set latlons)" by simp_all
  have la: "Min (fst ` set latlons) \<le> fst pair" "fst pair \<le> Max (fst ` set latlons)"
    using assms fin by (auto intro: Min_le Max_ge)
  have lo: "Min (snd ` set latlons) \<le> snd pair" "snd pair \<le> Max (snd ` set latlons)"
    using assms fin by (auto intro: Min_le Max_ge)
  note ry = pixel_bounds [OF p la]
  note rx = pixel_bounds [OF p lo]
  show "2 \<le> fst (station_cell latlons pair)"
    using ry unfolding station_cell_def raster_cell_def grid_height_def Let_def by simp
  show "fst (station_cell latlons pair) < grid_height latlons - 1"
    using ry unfolding station_cell_def raster_cell_def grid_height_def Let_def by simp
  show "1 \<le> snd (station_cell latlons pair)"
    using rx unfolding station_cell_def raster_cell_def grid_width_def Let_def by simp
  show "snd (station_cell latlons pair) < grid_width latlons - 2"
    using rx unfolding station_cell_def raster_cell_def grid_width_def Let_def by simp
qed

lemma points_loop_result:
  assumes p: "p \<noteq> 0"
  shows "length pendep = length latlons \<Longrightarrow>
     points_loop h minlat minlon p latlons pendep =
       Inr (map (\<lambda>pair. (fst (raster_cell h minlat minlon p pair) + 1, snd (raster_cell h minlat minlon p pair))) latlons,
            map abs pendep)"
proof (induction latlons arbitrary: pendep)
  case Nil
  then show ?case by simp
next
  case (Cons pair rest)
  then obtain d ds where pd: "pendep = d # ds" and lds: "length ds = length rest"
    by (cases pendep) auto
  show ?case
    unfolding pd using Cons.IH [OF lds] get_index_raster_cell [OF p, of pair minlat minlon h]
    by simp
qed

lemma nan_grid:
  assumes "0 \<le> rows" "0 \<le> cols"
  shows "np_zeros rows cols = Inr (replicate (nat rows) (replicate (nat cols) (Some 0)))"
    and "fill_nan (replicate (nat rows) (replicate (nat cols) (Some 0))) = replicate (nat rows) (replicate (nat cols) None)"
    and "grid_shape (replicate (nat rows) (replicate (nat cols) None)) (nat rows) (nat cols)"
  using assms by (simp_all add: np_zeros_def fill_nan_def grid_shape_def list_all_length)

lemma grid_dims_ge_4:
  assumes "latlons \<noteq> []"
  shows "4 \<le> grid_height latlons" and "4 \<le> grid_width latlons"
proof -
  have "0 \<le> (Max (fst ` set latlons) - Min (fst ` set latlons)) / 0.002"
    using Min_le_Max_image [OF assms, of fst] by simp
  then show "4 \<le> grid_height latlons" unfolding grid_height_def by simp
  have "0 \<le> (Max (snd ` set latlons) - Min (snd ` set latlons)) / 0.002"
    using Min_le_Max_image [OF assms, of snd] by simp
  then show "4 \<le> grid_width latlons" unfolding grid_width_def by simp
qed

lemma latlon_raster_unfold:
  assumes ne: "latlons \<noteq> []"
  shows "latlon_raster latlons pendep =
     (case raster_loop (replicate (nat (grid_height latlons)) (replicate (nat (grid_width latlons)) None))
             (Min (fst ` set latlons)) (Min (snd ` set latlons)) 0.002 latlons pendep of
        Inl e \<Rightarrow> Inl e
      | Inr zdep \<Rightarrow>
          (case points_loop (int (length zdep)) (Min (fst ` set latlons)) (Min (snd ` set latlons)) 0.002 latlons pendep of
             Inl e \<Rightarrow> Inl e
           | Inr (points, values) \<Rightarrow> Inr (zdep, points, values)))"
proof -
  have h: "0 \<le> grid_height latlons" and w: "0 \<le> grid_width latlons"
    using grid_dims_ge_4 [OF ne] by simp_all
  show ?thesis
    unfolding latlon_raster_def get_bounding_box_nonempty [OF ne] sum.case Let_def fst_conv snd_conv
      grid_height_def [symmetric] grid_width_def [symmetric] nan_grid(1) [OF h w] nan_grid(2) [OF h w]
    by (rule refl)
qed

lemma latlon_raster_result:
  assumes ne: "latlons \<noteq> []" and len: "length pendep = length latlons"
  shows "\<exists>zdep. latlon_raster latlons pendep =
            Inr (zdep,
                 map (\<lambda>pair. (fst (station_cell latlons pair) + 1, snd (station_cell latlons pair))) latlons,
                 map abs pendep)
     \<and> grid_shape zdep (nat (grid_height latlons)) (nat (grid_width latlons))
     \<and> (\<forall>r<nat (grid_height latlons). \<forall>c<nat (grid_width latlons).
           (\<forall>k<length latlons. station_cell latlons (latlons ! k) \<noteq> (int r, int c)) \<longrightarrow> zdep ! r ! c = None)
     \<and> (\<forall>k<length latlons.
           (\<forall>k'<length latlons. k < k' \<longrightarrow> station_cell latlons (latlons ! k') \<noteq> station_cell latlons (latlons ! k))
           \<longrightarrow> zdep ! nat (fst (station_cell latlons (latlons ! k))) ! nat (snd (station_cell latlons (latlons ! k)))
                 = Some \<bar>pendep ! k\<bar>)"
proof -
  let ?h = "nat (grid_height latlons)" and ?w = "nat (grid_width latlons)"
  let ?minlat = "Min (fst ` set latlons)" and ?minlon = "Min (snd ` set latlons)"
  let ?g0 = "replicate ?h (replicate ?w (None :: real option))"
  have h: "int ?h = grid_height latlons" and w: "int ?w = grid_width latlons"
    using grid_dims_ge_4 [OF ne] by simp_all
  have cell: "raster_cell (grid_height latlons) ?minlat ?minlon 0.002 = station_cell latlons"
    by (rule ext) (simp add: station_cell_def)
  have p: "(0.002 :: real) \<noteq> 0" by simp
  have sh0: "grid_shape ?g0 ?h ?w" by (simp add: grid_shape_def list_all_length)
  have inr: "\<forall>pair \<in> set latlons.
        0 \<le> fst (raster_cell (int ?h) ?minlat ?minlon 0.002 pair) \<and> fst (raster_cell (int ?h) ?minlat ?minlon 0.002 pair) < int ?h \<and>
        0 \<le> snd (raster_cell (int ?h) ?minlat ?minlon 0.002 pair) \<and> snd (raster_cell (int ?h) ?minlat ?minlon 0.002 pair) < int ?w"
  proof
    fix pair assume m: "pair \<in> set latlons"
    have "0 \<le> fst (station_cell latlons pair)" using station_cell_in_range(1) [OF m] by linarith
    moreover have "fst (station_cell latlons pair) < grid_height latlons" using station_cell_in_range(2) [OF m] by linarith
    moreover have "0 \<le> snd (station_cell latlons pair)" using station_cell_in_range(3) [OF m] by linarith
    moreover have "snd (station_cell latlons pair) < grid_width latlons" using station_cell_in_range(4) [OF m] by linarith
    ultimately show "0 \<le> fst (raster_cell (int ?h) ?minlat ?minlon 0.002 pair) \<and> fst (raster_cell (int ?h) ?minlat ?minlon 0.002 pair) < int ?h \<and>
        0 \<le> snd (raster_cell (int ?h) ?minlat ?minlon 0.002 pair) \<and> snd (raster_cell (int ?h) ?minlat ?minlon 0.002 pair) < int ?w"
      by (simp only: h w cell)
  qed
  from raster_loop_writes [OF p sh0 len inr, unfolded h cell]
  obtain zdep where run: "raster_loop ?g0 ?minlat ?minlon 0.002 latlons pendep = Inr zdep"
    and sh: "grid_shape zdep ?h ?w"
    and untouched: "\<forall>r<?h. \<forall>c<?w. (\<forall>k<length latlons. station_cell latlons (latlons ! k) \<noteq> (int r, int c))
              \<longrightarrow> zdep ! r ! c = ?g0 ! r ! c"
    and lastw: "\<forall>k<length latlons.
           (\<forall>k'<length latlons. k < k' \<longrightarrow> station_cell latlons (latlons ! k') \<noteq> station_cell latlons (latlons ! k))
           \<longrightarrow> zdep ! nat (fst (station_cell latlons (latlons ! k))) ! nat (snd (station_cell latlons (latlons ! k)))
                 = Some \<bar>pendep ! k\<bar>"
    by blast
  have lz: "int (length zdep) = grid_height latlons" using sh h by (simp add: grid_shape_def)
  have pts: "points_loop (int (length zdep)) ?minlat ?minlon 0.002 latlons pendep =
       Inr (map (\<lambda>pair. (fst (station_cell latlons pair) + 1, snd (station_cell latlons pair))) latlons, map abs pendep)"
    unfolding lz using points_loop_result [OF p len, of "grid_height latlons" ?minlat ?minlon]
    by (simp add: station_cell_def)
  have res: "latlon_raster latlons pendep =
            Inr (zdep, map (\<lambda>pair. (fst (station_cell latlons pair) + 1, snd (station_cell latlons pair))) latlons,
                 map abs pendep)"
    unfolding latlon_raster_unfold [OF ne] run sum.case pts by simp
  have none: "\<forall>r<?h. \<forall>c<?w. (\<forall>k<length latlons. station_cell latlons (latlons ! k) \<noteq> (int r, int c))
              \<longrightarrow> zdep ! r ! c = None"
    using untouched by simp
  show ?thesis
    by (rule exI [of _ zdep]) (intro conjI res sh none lastw)
qed

subsection \<open>Claim C4\<close>

text \<open>
  C4. The raster compositor creates the (ny + pad) x (nx + pad) grid and sets every cell
  to the no-data sentinel (\<open>None\<close>, not the number zero); then, for the stations
  in iteration order, it writes the magnitude of the depth at
  row = grid_height - iy - 1, column = ix, a cell inside the grid, where (ix, iy) is
  the pixel index of the station.  In the final raster the cell of a station that no
  later station shares holds the magnitude of that station, so of two stations on one
  cell the later one wins, without an error; a cell of no station is still no-data.
\<close>

theorem raster_compositor_last_write_wins:
  assumes ne: "latlons \<noteq> []" and len: "length pendep = length latlons"
  shows "\<exists>zeros zdep points values.
      np_zeros (grid_height latlons) (grid_width latlons) = Inr zeros
    \<and> grid_shape (fill_nan zeros) (nat (grid_height latlons)) (nat (grid_width latlons))
    \<and> (\<forall>r<nat (grid_height latlons). \<forall>c<nat (grid_width latlons). fill_nan zeros ! r ! c = None)
    \<and> latlon_raster latlons pendep = Inr (zdep, points, values)
    \<and> grid_shape zdep (nat (grid_height latlons)) (nat (grid_width latlons))
    \<and> (\<forall>k<length latlons. \<exists>ix iy.
          get_index (fst (latlons ! k)) (snd (latlons ! k))
            (Min (fst ` set latlons)) (Min (snd ` set latlons)) 0.002 1 = Inr (ix, iy)
          \<and> station_cell latlons (latlons ! k) = (grid_height latlons - iy - 1, ix)
          \<and> 0 \<le> grid_height latlons - iy - 1 \<and> grid_height latlons - iy - 1 < grid_height latlons
          \<and> 0 \<le> ix \<and> ix < grid_width latlons)
    \<and> (\<forall>k<length latlons.
          (\<forall>k'<length latlons. k < k' \<longrightarrow> station_cell latlons (latlons ! k') \<noteq> station_cell latlons (latlons ! k))
          \<longrightarrow> zdep ! nat (fst (station_cell latlons (latlons ! k))) ! nat (snd (station_cell latlons (latlons ! k)))
                = Some \<bar>pendep ! k\<bar>)
    \<and> (\<forall>r<nat (grid_height latlons). \<forall>c<nat (grid_width latlons).
          (\<forall>k<length latlons. station_cell latlons (latlons ! k) \<noteq> (int r, int c)) \<longrightarrow> zdep ! r ! c = None)"
proof -
  let ?gh = "grid_height latlons" and ?gw = "grid_width latlons"
  have h: "0 \<le> ?gh" and w: "0 \<le> ?gw" using grid_dims_ge_4 [OF ne] by simp_all
  let ?zeros = "replicate (nat ?gh) (replicate (nat ?gw) (Some (0::real)))"
  have z: "np_zeros ?gh ?gw = Inr ?zeros" using h w by (rule nan_grid(1))
  have fz: "fill_nan ?zeros = replicate (nat ?gh) (replicate (nat ?gw) None)" using h w by (rule nan_grid(2))
  have sh0: "grid_shape (fill_nan ?zeros) (nat ?gh) (nat ?gw)" unfolding fz using h w by (rule nan_grid(3))
  have none0: "\<forall>r<nat ?gh. \<forall>c<nat ?gw. fill_nan ?zeros ! r ! c = None" unfolding fz by simp
  from latlon_raster_result [OF ne len] obtain zdep where
    res: "latlon_raster latlons pendep =
            Inr (zdep, map (\<lambda>pair. (fst (station_cell latlons pair) + 1, snd (station_cell latlons pair))) latlons,
                 map abs pendep)"
    and sh: "grid_shape zdep (nat ?gh) (nat ?gw)"
    and none: "\<forall>r<nat ?gh. \<forall>c<nat ?gw.
           (\<forall>k<length latlons. station_cell latlons (latlons ! k) \<noteq> (int r, int c)) \<longrightarrow> zdep ! r ! c = None"
    and lastw: "\<forall>k<length latlons.
           (\<forall>k'<length latlons. k < k' \<longrightarrow> station_cell latlons (latlons ! k') \<noteq> station_cell latlons (latlons ! k))
           \<longrightarrow> zdep ! nat (fst (station_cell latlons (latlons ! k))) ! nat (snd (station_cell latlons (latlons ! k)))
                 = Some \<bar>pendep ! k\<bar>"
    by blast
  have idx: "\<forall>k<length latlons. \<exists>ix iy.
          get_index (fst (latlons ! k)) (snd (latlons ! k))
            (Min (fst ` set latlons)) (Min (snd ` set latlons)) 0.002 1 = Inr (ix, iy)
          \<and> station_cell latlons (latlons ! k) = (?gh - iy - 1, ix)
          \<and> 0 \<le> ?gh - iy - 1 \<and> ?gh - iy - 1 < ?gh \<and> 0 \<le> ix \<and> ix < ?gw"
  proof (intro allI impI)
    fix k assume k: "k < length latlons"
    let ?pair = "latlons ! k"
    let ?ix = "py_round ((snd ?pair - Min (snd ` set latlons)) / 0.002) + 1"
    let ?iy = "py_round ((fst ?pair - Min (fst ` set latlons)) / 0.002) + 1"
    from k have m: "?pair \<in> set latlons" by simp
    have gi: "get_index (fst ?pair) (snd ?pair) (Min (fst ` set latlons)) (Min (snd ` set latlons)) 0.002 1
                = Inr (?ix, ?iy)"
      by (simp add: get_index_def Let_def)
    have sc: "station_cell latlons ?pair = (?gh - ?iy - 1, ?ix)"
      by (simp add: station_cell_def raster_cell_def Let_def)
    have "0 \<le> ?gh - ?iy - 1" "?gh - ?iy - 1 < ?gh" "0 \<le> ?ix" "?ix < ?gw"
      using station_cell_in_range [OF m] unfolding sc fst_conv snd_conv by linarith+
    with gi sc show "\<exists>ix iy.
          get_index (fst ?pair) (snd ?pair) (Min (fst ` set latlons)) (Min (snd ` set latlons)) 0.002 1 = Inr (ix, iy)
          \<and> station_cell latlons ?pair = (?gh - iy - 1, ix)
          \<and> 0 \<le> ?gh - iy - 1 \<and> ?gh - iy - 1 < ?gh \<and> 0 \<le> ix \<and> ix < ?gw"
      by blast
  qed
  show ?thesis
    apply (rule exI [of _ ?zeros])
    apply (rule exI [of _ zdep])
    apply (rule exI [of _ "map (\<lambda>pair. (fst (station_cell latlons pair) + 1, snd (station_cell latlons pair))) latlons"])
    apply (rule exI [of _ "map abs pendep"])
    apply (intro conjI z sh0 none0 res sh idx lastw none)
    done
qed


theorem raster_compositor_last_write_wins_witness:
  "\<exists>zdep points values.
      latlon_raster [(0, 0), (0, 1), (0, 0)] [- 5, - 6, - 7] = Inr (zdep, points, values)
      \<and> zdep ! 2 ! 1 = Some 7 \<and> zdep ! 2 ! 501 = Some 6 \<and> zdep ! 0 ! 0 = None"
proof -
  let ?ll = "[(0, 0), (0, 1), (0, 0)] :: (real \<times> real) list"
  let ?pd = "[- 5, - 6, - 7] :: real list"
  have gh: "grid_height ?ll = 4" by (simp add: grid_height_def)
  have gw: "grid_width ?ll = 504" by (simp add: grid_width_def)
  have c0: "station_cell ?ll (0, 0) = (2, 1)"
    by (simp add: station_cell_def raster_cell_def grid_height_def py_round_def)
  have c1: "station_cell ?ll (0, 1) = (2, 501)"
    by (simp add: station_cell_def raster_cell_def grid_height_def py_round_def)
  from raster_compositor_last_write_wins [of ?ll ?pd]
  obtain zdep points vals where
    res: "latlon_raster ?ll ?pd = Inr (zdep, points, vals)"
    and lastw: "\<forall>k<length ?ll.
          (\<forall>k'<length ?ll. k < k' \<longrightarrow> station_cell ?ll (?ll ! k') \<noteq> station_cell ?ll (?ll ! k))
          \<longrightarrow> zdep ! nat (fst (station_cell ?ll (?ll ! k))) ! nat (snd (station_cell ?ll (?ll ! k)))
                = Some \<bar>?pd ! k\<bar>"
    and none: "\<forall>r<nat (grid_height ?ll). \<forall>c<nat (grid_width ?ll).
          (\<forall>k<length ?ll. station_cell ?ll (?ll ! k) \<noteq> (int r, int c)) \<longrightarrow> zdep ! r ! c = None"
    by auto
  from lastw [rule_format, of 2] have a: "zdep ! 2 ! 1 = Some 7" by (simp add: c0)
  from lastw [rule_format, of 1] have b: "zdep ! 2 ! 501 = Some 6"
    by (simp add: c0 c1 less_Suc_eq)
  have "\<forall>k<length ?ll. station_cell ?ll (?ll ! k) \<noteq> (int 0, int 0)"
    by (auto simp: c0 c1 less_Suc_eq)
  with none [rule_format, of 0 0] have c: "zdep ! 0 ! 0 = None"
    by (simp add: gh gw)
  from res a b c show ?thesis by blast
qed

subsection \<open>Helper lemmas on the tensor extractor\<close>

lemma py_get_nonneg: "0 \<le> i \<Longrightarrow> i < int (length xs) \<Longrightarrow> py_get xs i = Inr (xs ! nat i)"
  by (simp add: py_get_def Let_def)

lemma scale_param_nonneg: "0 \<le> scale_param"
  unfolding scale_param_def by simp

lemma scale_param_spec: "scale_param = sqrt (1 / (2 * pi * (4 * pi * (1 / 10 ^ 7))))"
  unfolding scale_param_def by (simp add: mult.assoc)

lemma station_depth_spec:
  assumes sel: "selector = ''zxy'' \<or> selector = ''zyx'' \<or> selector = ''det''"
    and i: "0 \<le> i" "i < int (length (freq s))"
    and wf: "length (resistivity s) = length (freq s)" "length (det s) = length (freq s)"
  shows "station_depth s i selector = Inr (1 / freq s ! nat i, - spec_depth selector s (nat i))"
proof -
  have f: "py_get (freq s) i = Inr (freq s ! nat i)" using i by (rule py_get_nonneg)
  have r: "py_get (resistivity s) i = Inr (resistivity s ! nat i)" using i wf by (intro py_get_nonneg) simp_all
  have d: "py_get (det s) i = Inr (det s ! nat i)" using i wf by (intro py_get_nonneg) simp_all
  have guard: "\<not> int (length (freq s)) \<le> i" using i by simp
  from sel show ?thesis
  proof (elim disjE)
    assume "selector = ''zxy''"
    then show ?thesis
      unfolding station_depth_def spec_depth_def scale_param_spec [symmetric] Let_def f r sum.case
      using guard by simp
  next
    assume "selector = ''zyx''"
    then show ?thesis
      unfolding station_depth_def spec_depth_def scale_param_spec [symmetric] Let_def f r sum.case
      using guard by simp
  next
    assume "selector = ''det''"
    then show ?thesis
      unfolding station_depth_def spec_depth_def scale_param_spec [symmetric] Let_def f d sum.case
      using guard by simp
  qed
qed

lemma spec_depth_nonneg:
  assumes "0 < freq s ! i" "0 \<le> res_xy (resistivity s ! i)" "0 \<le> res_yx (resistivity s ! i)"
  shows "0 \<le> spec_depth selector s i"
  using assms unfolding spec_depth_def scale_param_spec [symmetric] Let_def
  by (auto intro!: mult_nonneg_nonneg scale_param_nonneg)

lemma station_depth_unsupported:
  assumes sel: "selector \<noteq> ''zxy''" "selector \<noteq> ''zyx''" "selector \<noteq> ''det''"
    and i: "- int (length (freq s)) \<le> i" "i < int (length (freq s))"
  shows "station_depth s i selector = Inl (SystemExit 100)"
  using assms by (simp add: station_depth_def py_get_def Let_def)

lemma station_depth_index_guard:
  assumes "int (length (freq s)) \<le> i"
  shows "station_depth s i selector = Inl IndexOutOfRange"
  using assms by (simp add: station_depth_def)

lemma station_depth_unsupported_fails:
  assumes sel: "selector \<noteq> ''zxy''" "selector \<noteq> ''zyx''" "selector \<noteq> ''det''"
  shows "\<exists>e. station_depth s i selector = Inl e"
  using assms by (simp add: station_depth_def py_get_def Let_def)

lemma depth_loop_first_fails:
  "station_depth s i w = Inl e \<Longrightarrow> depth_loop (s # rest) i w st = Inl e"
  by (cases st) simp

lemma depth_loop_all_ok:
  "(\<forall>s \<in> set edis. station_depth s i w = Inr (per s, dep s)) \<Longrightarrow>
     depth_loop edis i w (a, b, c, d) =
       Inr (a @ map station edis, b @ map per edis, c @ map dep edis, d @ map (\<lambda>s. (lat s, lon s)) edis)"
  by (induction edis arbitrary: a b c d) simp_all

lemma check_period_values_Cons: "check_period_values (p # ps) = Inr (\<forall>x \<in> set ps. x = p)"
  by (simp add: check_period_values_def period_scan_iff)

lemma get_penetration_depth_all_ok:
  assumes ne: "edis \<noteq> []" and ok: "\<forall>s \<in> set edis. station_depth s i w = Inr (per s, dep s)"
  shows "get_penetration_depth edis i w =
           Inr (map station edis, map per edis, map dep edis, map (\<lambda>s. (lat s, lon s)) edis)"
proof -
  from ne obtain s rest where e: "edis = s # rest" by (cases edis) auto
  have "depth_loop edis i w ([], [], [], []) =
          Inr ([] @ map station edis, [] @ map per edis, [] @ map dep edis, [] @ map (\<lambda>s. (lat s, lon s)) edis)"
    using ok by (rule depth_loop_all_ok)
  then show ?thesis
    unfolding get_penetration_depth_def by (simp add: e check_period_values_Cons)
qed

lemma get_penetration_depth_unsupported_fails:
  assumes sel: "selector \<noteq> ''zxy''" "selector \<noteq> ''zyx''" "selector \<noteq> ''det''"
  shows "\<exists>e. get_penetration_depth edis i selector = Inl e"
proof (cases edis)
  case Nil
  then show ?thesis by (simp add: get_penetration_depth_def check_period_values_def)
next
  case (Cons s rest)
  from station_depth_unsupported_fails [OF sel] obtain e where "station_depth s i selector = Inl e" by blast
  then have "depth_loop edis i selector ([], [], [], []) = Inl e"
    unfolding Cons by (rule depth_loop_first_fails)
  then show ?thesis by (simp add: get_penetration_depth_def)
qed

subsection \<open>Helper lemmas on the pipelines\<close>

lemma plot_gridded_profile_ok:
  assumes ne: "edis \<noteq> []" and ok: "\<forall>s \<in> set edis. station_depth s i w = Inr (per s, dep s)"
  shows "plot_gridded_profile edis i w = latlon_raster (map (\<lambda>s. (lat s, lon s)) edis) (map dep edis)"
proof -
  from ne obtain s rest where e: "edis = s # rest" by (cases edis) auto
  have p0: "py_get (map per edis) 0 = Inr (per s)" by (simp add: e py_get_def)
  show ?thesis
    unfolding plot_gridded_profile_def get_penetration_depth_all_ok [OF ne ok] sum.case prod.case p0
    by (simp split: sum.splits)
qed

lemma plot_latlon_depth_profile_ok:
  assumes ne: "edis \<noteq> []" and ok: "\<forall>s \<in> set edis. station_depth s i w = Inr (per s, dep s)"
  shows "plot_latlon_depth_profile edis i w =
           (if \<forall>s \<in> set edis. per s = per (hd edis)
            then latlon_raster (map (\<lambda>s. (lat s, lon s)) edis) (map dep edis)
            else Inl PeriodsNotEqual)"
proof -
  from ne obtain s rest where e: "edis = s # rest" by (cases edis) auto
  have p0: "py_get (map per edis) 0 = Inr (per s)" by (simp add: e py_get_def)
  have chk: "check_period_values (map per edis) = Inr (\<forall>s \<in> set edis. per s = per (hd edis))"
    by (simp add: e check_period_values_Cons)
  show ?thesis
    unfolding plot_latlon_depth_profile_def get_penetration_depth_all_ok [OF ne ok] sum.case prod.case chk p0
    by simp
qed

lemma np_mul_same_length: "length xs = length ys \<Longrightarrow> np_mul xs ys = Inr (map2 (*) xs ys)"
  by (simp add: np_mul_def)

lemma from_edi_file_det:
  assumes wf: "length (det s) = length (freq s)"
  shows "get_penetration_depths_from_edi_file s [''det''] = Inr (lat s, lon s, station_periods s, det_depths s)"
proof -
  let ?periods = "map (\<lambda>f. 1 / f) (freq s)"
  let ?det2 = "map cmod (det s)"
  have m1: "np_mul (map ((*) 0.2) ?periods) ?det2 = Inr (map2 (*) (map ((*) 0.2) ?periods) ?det2)"
    using wf by (intro np_mul_same_length) simp
  have m2: "np_mul (map2 (*) (map ((*) 0.2) ?periods) ?det2) ?periods
              = Inr (map2 (*) (map2 (*) (map ((*) 0.2) ?periods) ?det2) ?periods)"
    using wf by (intro np_mul_same_length) simp
  have dd: "map (\<lambda>x. scale_param * sqrt x) (map2 (*) (map2 (*) (map ((*) 0.2) ?periods) ?det2) ?periods)
              = det_depths s"
    using wf by (intro nth_equalityI) (simp_all add: det_depths_def station_periods_def)
  have sel: "''zxy'' \<in> set [''det''] \<longleftrightarrow> False" "''zyx'' \<in> set [''det''] \<longleftrightarrow> False"
    "''det'' \<in> set [''det''] \<longleftrightarrow> True"
    by simp_all
  show ?thesis
    unfolding get_penetration_depths_from_edi_file_def Let_def
    by (simp only: sel if_True if_False m1 m2 sum.case depth_of_product_def dd option.case
          station_periods_def)
qed

lemma csv_loop_result:
  "(\<forall>s \<in> set edis. length (det s) = length (freq s)) \<Longrightarrow>
     csv_loop fmt edis (Some p0, rows, lg) =
       Inr (Some p0,
            rows @ map (\<lambda>s. (lat s, lon s, depth_string fmt (det_depths s)))
                     (filter (\<lambda>s. station_periods s = p0) edis),
            lg @ map (\<lambda>s. MT_Periods_Not_Equal (station_periods s) p0)
                     (filter (\<lambda>s. station_periods s \<noteq> p0) edis))"
proof (induction edis arbitrary: rows lg)
  case Nil
  then show ?case by simp
next
  case (Cons s rest)
  have eq: "(length (station_periods s) = length p0 \<and> list_all2 (=) (station_periods s) p0)
              \<longleftrightarrow> station_periods s = p0"
    by (auto simp: list_all2_eq [symmetric])
  from Cons.prems have wf: "length (det s) = length (freq s)"
    and wfr: "\<forall>s \<in> set rest. length (det s) = length (freq s)" by simp_all
  show ?case
    using Cons.IH [OF wfr] by (simp add: from_edi_file_det [OF wf] eq)
qed

lemma create_csv_file_result:
  assumes wf: "\<forall>s \<in> set edis. length (det s) = length (freq s)"
  shows "create_csv_file fmt edis =
       Inr (map (\<lambda>s. (lat s, lon s, depth_string fmt (det_depths s)))
                (filter (\<lambda>s. station_periods s = station_periods (hd edis)) edis),
            map (\<lambda>s. MT_Periods_Not_Equal (station_periods s) (station_periods (hd edis)))
                (filter (\<lambda>s. station_periods s \<noteq> station_periods (hd edis)) edis))"
proof (cases edis)
  case Nil
  then show ?thesis by (simp add: create_csv_file_def)
next
  case (Cons s rest)
  from wf Cons have wfs: "length (det s) = length (freq s)"
    and wfr: "\<forall>s \<in> set rest. length (det s) = length (freq s)" by simp_all
  show ?thesis
    unfolding create_csv_file_def Cons
    by (simp add: from_edi_file_det [OF wfs] csv_loop_result [OF wfr])
qed

subsection \<open>Claim C1\<close>

text \<open>
  C1. For a batch in which every station has more than i frequencies, and for each
  selector zxy, zyx, det, \<open>get_penetration_depth\<close> computes for every station
  period = 1 / frequency[i] and a depth whose magnitude is the value the specification
  gives (\<open>spec_depth\<close>: k * sqrt(resistivity[i][0][1] * period) for zxy,
  k * sqrt(resistivity[i][1][0] * period) for zyx,
  k * sqrt(0.2 * period * |det[i]| * period) for det).  The raw value carries a minus
  sign; downstream the absolute value is used: the values handed to the interpolator
  and the cells of the raster hold the magnitude.  Frequencies are taken positive and
  resistivities non-negative, where the real-number reading of the formula is the
  floating-point one.
\<close>

theorem get_penetration_depth_formula:
  assumes sel: "selector = ''zxy'' \<or> selector = ''zyx'' \<or> selector = ''det''"
    and ne: "edis \<noteq> []"
    and wf: "\<forall>s \<in> set edis. 0 \<le> i \<and> i < int (length (freq s))
               \<and> length (resistivity s) = length (freq s) \<and> length (det s) = length (freq s)"
    and phys: "\<forall>s \<in> set edis. 0 < freq s ! nat i
               \<and> 0 \<le> res_xy (resistivity s ! nat i) \<and> 0 \<le> res_yx (resistivity s ! nat i)"
  shows "\<exists>zdep points.
      get_penetration_depth edis i selector =
        Inr (map station edis,
             map (\<lambda>s. 1 / freq s ! nat i) edis,
             map (\<lambda>s. - spec_depth selector s (nat i)) edis,
             map (\<lambda>s. (lat s, lon s)) edis)
    \<and> (\<forall>s \<in> set edis.
          station_depth s i selector = Inr (1 / freq s ! nat i, - spec_depth selector s (nat i))
          \<and> \<bar>- spec_depth selector s (nat i)\<bar> = spec_depth selector s (nat i))
    \<and> plot_gridded_profile edis i selector =
          Inr (zdep, points, map (\<lambda>s. spec_depth selector s (nat i)) edis)
    \<and> (\<forall>k<length edis.
          (\<forall>k'<length edis. k < k' \<longrightarrow>
              station_cell (map (\<lambda>s. (lat s, lon s)) edis) (lat (edis ! k'), lon (edis ! k'))
                \<noteq> station_cell (map (\<lambda>s. (lat s, lon s)) edis) (lat (edis ! k), lon (edis ! k)))
          \<longrightarrow> zdep ! nat (fst (station_cell (map (\<lambda>s. (lat s, lon s)) edis) (lat (edis ! k), lon (edis ! k))))
                   ! nat (snd (station_cell (map (\<lambda>s. (lat s, lon s)) edis) (lat (edis ! k), lon (edis ! k))))
                = Some (spec_depth selector (edis ! k) (nat i)))
    \<and> ((\<forall>s \<in> set edis. 1 / freq s ! nat i = 1 / freq (hd edis) ! nat i)
          \<longrightarrow> plot_latlon_depth_profile edis i selector = plot_gridded_profile edis i selector)"
proof -
  let ?per = "\<lambda>s. 1 / freq s ! nat i" and ?dep = "\<lambda>s. - spec_depth selector s (nat i)"
  let ?ll = "map (\<lambda>s. (lat s, lon s)) edis"
  have ok: "\<forall>s \<in> set edis. station_depth s i selector = Inr (?per s, ?dep s)"
    using wf by (auto intro!: station_depth_spec [OF sel])
  have nonneg: "0 \<le> spec_depth selector s (nat i)" if "s \<in> set edis" for s
    using phys that by (intro spec_depth_nonneg) auto
  have mag: "\<forall>s \<in> set edis. station_depth s i selector = Inr (?per s, ?dep s)
               \<and> \<bar>?dep s\<bar> = spec_depth selector s (nat i)"
    using ok nonneg by simp
  have absmap: "map abs (map ?dep edis) = map (\<lambda>s. spec_depth selector s (nat i)) edis"
    using nonneg by simp
  have lne: "?ll \<noteq> []" using ne by simp
  have len: "length (map ?dep edis) = length ?ll" by simp
  from latlon_raster_result [OF lne len] obtain zdep where
    res: "latlon_raster ?ll (map ?dep edis) =
            Inr (zdep, map (\<lambda>pair. (fst (station_cell ?ll pair) + 1, snd (station_cell ?ll pair))) ?ll,
                 map abs (map ?dep edis))"
    and lastw: "\<forall>k<length ?ll.
           (\<forall>k'<length ?ll. k < k' \<longrightarrow> station_cell ?ll (?ll ! k') \<noteq> station_cell ?ll (?ll ! k))
           \<longrightarrow> zdep ! nat (fst (station_cell ?ll (?ll ! k))) ! nat (snd (station_cell ?ll (?ll ! k)))
                 = Some \<bar>map ?dep edis ! k\<bar>"
    by blast
  let ?points = "map (\<lambda>pair. (fst (station_cell ?ll pair) + 1, snd (station_cell ?ll pair))) ?ll"
  have g: "plot_gridded_profile edis i selector =
             Inr (zdep, ?points, map (\<lambda>s. spec_depth selector s (nat i)) edis)"
    unfolding plot_gridded_profile_ok [OF ne ok] res absmap by (rule refl)
  have cells: "\<forall>k<length edis.
          (\<forall>k'<length edis. k < k' \<longrightarrow>
              station_cell ?ll (lat (edis ! k'), lon (edis ! k')) \<noteq> station_cell ?ll (lat (edis ! k), lon (edis ! k)))
          \<longrightarrow> zdep ! nat (fst (station_cell ?ll (lat (edis ! k), lon (edis ! k))))
                   ! nat (snd (station_cell ?ll (lat (edis ! k), lon (edis ! k))))
                = Some (spec_depth selector (edis ! k) (nat i))"
  proof (intro allI impI)
    fix k assume k: "k < length edis"
      and later: "\<forall>k'<length edis. k < k' \<longrightarrow>
              station_cell ?ll (lat (edis ! k'), lon (edis ! k')) \<noteq> station_cell ?ll (lat (edis ! k), lon (edis ! k))"
    have "\<forall>k'<length ?ll. k < k' \<longrightarrow> station_cell ?ll (?ll ! k') \<noteq> station_cell ?ll (?ll ! k)"
      using later k by simp
    with lastw k have "zdep ! nat (fst (station_cell ?ll (?ll ! k))) ! nat (snd (station_cell ?ll (?ll ! k)))
                 = Some \<bar>map ?dep edis ! k\<bar>" by simp
    moreover have "\<bar>map ?dep edis ! k\<bar> = spec_depth selector (edis ! k) (nat i)"
      using k nonneg [of "edis ! k"] by simp
    ultimately show "zdep ! nat (fst (station_cell ?ll (lat (edis ! k), lon (edis ! k))))
                   ! nat (snd (station_cell ?ll (lat (edis ! k), lon (edis ! k))))
                = Some (spec_depth selector (edis ! k) (nat i))"
      using k by simp
  qed
  have same: "(\<forall>s \<in> set edis. ?per s = ?per (hd edis))
          \<longrightarrow> plot_latlon_depth_profile edis i selector = plot_gridded_profile edis i selector"
    unfolding plot_gridded_profile_ok [OF ne ok] plot_latlon_depth_profile_ok [OF ne ok] by simp
  have gp: "get_penetration_depth edis i selector =
        Inr (map station edis, map ?per edis, map ?dep edis, ?ll)"
    using ne ok by (rule get_penetration_depth_all_ok)
  show ?thesis
    apply (rule exI [of _ zdep])
    apply (rule exI [of _ ?points])
    apply (intro conjI gp mag g cells same)
    done
qed

theorem get_penetration_depth_formula_witness:
  "get_penetration_depth
     [\<lparr>station = ''S1'', lat = 0, lon = 0, freq = [4, 2], resistivity = [((0, 1), (1, 0)), ((0, 9), (9, 0))],
       det = [5, 5]\<rparr>] 1 ''zxy''
   = Inr ([''S1''], [1 / 2],
          [- spec_depth ''zxy'' \<lparr>station = ''S1'', lat = 0, lon = 0, freq = [4, 2],
              resistivity = [((0, 1), (1, 0)), ((0, 9), (9, 0))], det = [5, 5]\<rparr> 1], [(0, 0)])"
  using get_penetration_depth_formula [of "''zxy''"
     "[\<lparr>station = ''S1'', lat = 0, lon = 0, freq = [4, 2], resistivity = [((0, 1), (1, 0)), ((0, 9), (9, 0))],
       det = [5, 5]\<rparr>]" 1]
  by (simp add: res_xy_def res_yx_def)

subsection \<open>Claim C8\<close>

text \<open>
  C8, as stated: for every selector outside {zxy, zyx, det} the computation ends with
  exit status 100.  This fails where the guard on the index, which the loop body
  evaluates before it looks at the selector, fires first: a station with three
  frequencies, index 5 and the selector zxx raise the out-of-range exception.
\<close>

theorem unsupported_selector_counterexample:
  "''zxx'' \<notin> {''zxy'', ''zyx'', ''det''}
   \<and> get_penetration_depth
        [\<lparr>station = ''S1'', lat = 0, lon = 0, freq = [1, 2, 4],
          resistivity = [((0, 1), (1, 0)), ((0, 1), (1, 0)), ((0, 1), (1, 0))], det = [1, 1, 1]\<rparr>]
        5 ''zxx'' = Inl IndexOutOfRange
   \<and> get_penetration_depth
        [\<lparr>station = ''S1'', lat = 0, lon = 0, freq = [1, 2, 4],
          resistivity = [((0, 1), (1, 0)), ((0, 1), (1, 0)), ((0, 1), (1, 0))], det = [1, 1, 1]\<rparr>]
        5 ''zxx'' \<noteq> Inl (SystemExit 100)"
  by (simp add: get_penetration_depth_def station_depth_def)

text \<open>
  C8, amended: for every selector outside {zxy, zyx, det}, \<open>get_penetration_depth\<close>
  never returns a result.  When the batch is not empty and the index is one the first
  station's frequency array accepts, the run ends at that station with
  \<^verbatim>\<open>sys.exit(100)\<close>, exit status 100 (not the usage status 1).  When the
  index is at least the number of frequencies of the first station, the out-of-range
  exception is raised instead, and on an empty batch the period check raises
  \<open>IndexError\<close>.
\<close>

theorem unsupported_selector_exit_100:
  assumes sel: "selector \<notin> {''zxy'', ''zyx'', ''det''}"
  shows "(\<exists>e. get_penetration_depth edis i selector = Inl e)
    \<and> (edis \<noteq> [] \<and> - int (length (freq (hd edis))) \<le> i \<and> i < int (length (freq (hd edis)))
         \<longrightarrow> get_penetration_depth edis i selector = Inl (SystemExit 100)
           \<and> exit_status (outcome_of (get_penetration_depth edis i selector)) = 100)
    \<and> (edis \<noteq> [] \<and> int (length (freq (hd edis))) \<le> i
         \<longrightarrow> get_penetration_depth edis i selector = Inl IndexOutOfRange)
    \<and> (edis = [] \<longrightarrow> get_penetration_depth edis i selector = Inl IndexError)"
proof (intro conjI impI)
  from sel have s3: "selector \<noteq> ''zxy''" "selector \<noteq> ''zyx''" "selector \<noteq> ''det''" by simp_all
  show "\<exists>e. get_penetration_depth edis i selector = Inl e"
    using s3 by (rule get_penetration_depth_unsupported_fails)
  {
    assume a: "edis \<noteq> [] \<and> - int (length (freq (hd edis))) \<le> i \<and> i < int (length (freq (hd edis)))"
    then obtain s rest where e: "edis = s # rest" by (cases edis) auto
    from a e have "station_depth s i selector = Inl (SystemExit 100)"
      by (intro station_depth_unsupported s3) simp_all
    then have "depth_loop edis i selector ([], [], [], []) = Inl (SystemExit 100)"
      unfolding e by (rule depth_loop_first_fails)
    then show r: "get_penetration_depth edis i selector = Inl (SystemExit 100)"
      by (simp add: get_penetration_depth_def)
    show "exit_status (outcome_of (get_penetration_depth edis i selector)) = 100"
      unfolding r by (simp add: outcome_of_def exit_status_def)
  }
  {
    assume a: "edis \<noteq> [] \<and> int (length (freq (hd edis))) \<le> i"
    then obtain s rest where e: "edis = s # rest" by (cases edis) auto
    from a e have "station_depth s i selector = Inl IndexOutOfRange"
      by (intro station_depth_index_guard) simp
    then have "depth_loop edis i selector ([], [], [], []) = Inl IndexOutOfRange"
      unfolding e by (rule depth_loop_first_fails)
    then show "get_penetration_depth edis i selector = Inl IndexOutOfRange"
      by (simp add: get_penetration_depth_def)
  }
  {
    assume "edis = []"
    then show "get_penetration_depth edis i selector = Inl IndexError"
      by (simp add: get_penetration_depth_def check_period_values_def)
  }
qed

theorem unsupported_selector_exit_100_witness:
  "''zxx'' \<notin> {''zxy'', ''zyx'', ''det''}
   \<and> get_penetration_depth
        [\<lparr>station = ''S1'', lat = 0, lon = 0, freq = [1, 2, 4],
          resistivity = [((0, 1), (1, 0)), ((0, 1), (1, 0)), ((0, 1), (1, 0))], det = [1, 1, 1]\<rparr>]
        2 ''zxx'' = Inl (SystemExit 100)"
  using unsupported_selector_exit_100 [of "''zxx''"
        "[\<lparr>station = ''S1'', lat = 0, lon = 0, freq = [1, 2, 4],
          resistivity = [((0, 1), (1, 0)), ((0, 1), (1, 0)), ((0, 1), (1, 0))], det = [1, 1, 1]\<rparr>]" 2]
  by simp

subsection \<open>Claim C9\<close>

text \<open>
  C9. The command line expects two positional arguments, the station directory and
  the frequency index, and the claim is that fewer than two end the run with status 1.
  The script tests \<^verbatim>\<open>len(sys.argv) < 2\<close>, which counts the script name: with
  one positional argument that is not a directory the run prints a message and ends
  normally, status 0; with one that is a directory it fails on \<^verbatim>\<open>sys.argv[2]\<close>
  with an uncaught \<open>IndexError\<close>.  Only with no positional argument does it reach
  \<^verbatim>\<open>sys.exit(1)\<close>.
\<close>

theorem cli_single_argument_status:
  "main (\<lambda>_. False) (\<lambda>_. []) (\<lambda>_. Inl ValueError)
        [''penetration_depth_3d_profile.py'', ''not_a_directory''] = Completed
   \<and> exit_status (main (\<lambda>_. False) (\<lambda>_. []) (\<lambda>_. Inl ValueError)
        [''penetration_depth_3d_profile.py'', ''not_a_directory'']) = 0
   \<and> main (\<lambda>_. True) (\<lambda>_. []) (\<lambda>_. Inl ValueError)
        [''penetration_depth_3d_profile.py'', ''edi_dir''] = Uncaught IndexError
   \<and> main (\<lambda>_. True) (\<lambda>_. []) (\<lambda>_. Inl ValueError)
        [''penetration_depth_3d_profile.py''] = Exited 1"
  by (simp add: main_def exit_status_def py_get_def)

subsection \<open>Claim C2\<close>

text \<open>
  C2. The claim is that the sample points handed to the interpolator are the populated
  cells of the raster, row = grid_height - iy - 1 and column = ix.  The first loop
  writes at row \<^verbatim>\<open>zdep.shape[0] - yi - 1\<close>, the second loop builds the point with
  row \<^verbatim>\<open>zdep.shape[0] - j\<close>, one row further down.  For three stations on the
  corners of a triangle the raster is populated at (4, 1), (4, 3) and (2, 1), and the
  interpolator is given the points (5, 1), (5, 3) and (3, 1), which are empty cells.
\<close>

theorem interpolator_points_off_by_one:
  "plot_latlon_depth_profile
     [\<lparr>station = ''S1'', lat = 0, lon = 0, freq = [1], resistivity = [((0, 1), (1, 0))], det = [5]\<rparr>,
      \<lparr>station = ''S2'', lat = 0, lon = 0.004, freq = [1], resistivity = [((0, 1), (1, 0))], det = [5]\<rparr>,
      \<lparr>station = ''S3'', lat = 0.004, lon = 0, freq = [1], resistivity = [((0, 1), (1, 0))], det = [5]\<rparr>]
     0 ''det''
   = Inr ([[None, None, None, None, None, None],
           [None, None, None, None, None, None],
           [None, Some scale_param, None, None, None, None],
           [None, None, None, None, None, None],
           [None, Some scale_param, None, Some scale_param, None, None],
           [None, None, None, None, None, None]],
          [(5, 1), (5, 3), (3, 1)],
          [scale_param, scale_param, scale_param])"
  by (simp add: plot_latlon_depth_profile_def get_penetration_depth_def station_depth_def py_get_def
      check_period_values_def
      latlon_raster_def get_bounding_box_def py_min_def py_max_def np_zeros_def fill_nan_def
      get_index_def py_round_def grid_set_def Let_def eval_nat_numeral scale_param_nonneg)

subsection \<open>Claim C10\<close>



subsection \<open>Claim C6\<close>

text \<open>
  C6. A period mismatch is handled in two ways.  In \<open>plot_latlon_depth_profile\<close>
  it is fatal: when the stations of a batch do not all have the period of the first
  one at the requested index, the function raises and nothing is gridded.  In
  \<open>create_csv_file\<close> a station whose period list differs from that of the first
  file is logged and left out, and the loop goes on: the rows are those of the
  stations whose periods equal the reference, in order, and there is one log line for
  each of the others.
\<close>

theorem period_mismatch_two_policies:
  "((selector = ''zxy'' \<or> selector = ''zyx'' \<or> selector = ''det'') \<and> edis \<noteq> []
      \<and> (\<forall>s \<in> set edis. 0 \<le> i \<and> i < int (length (freq s))
             \<and> length (resistivity s) = length (freq s) \<and> length (det s) = length (freq s))
      \<and> (\<exists>s \<in> set edis. 1 / freq s ! nat i \<noteq> 1 / freq (hd edis) ! nat i)
     \<longrightarrow> plot_latlon_depth_profile edis i selector = Inl PeriodsNotEqual)
   \<and> ((\<forall>s \<in> set edis. length (det s) = length (freq s))
     \<longrightarrow> create_csv_file fmt edis =
           Inr (map (\<lambda>s. (lat s, lon s, depth_string fmt (det_depths s)))
                    (filter (\<lambda>s. station_periods s = station_periods (hd edis)) edis),
                map (\<lambda>s. MT_Periods_Not_Equal (station_periods s) (station_periods (hd edis)))
                    (filter (\<lambda>s. station_periods s \<noteq> station_periods (hd edis)) edis)))"
proof (intro conjI impI)
  assume a: "(selector = ''zxy'' \<or> selector = ''zyx'' \<or> selector = ''det'') \<and> edis \<noteq> []
      \<and> (\<forall>s \<in> set edis. 0 \<le> i \<and> i < int (length (freq s))
             \<and> length (resistivity s) = length (freq s) \<and> length (det s) = length (freq s))
      \<and> (\<exists>s \<in> set edis. 1 / freq s ! nat i \<noteq> 1 / freq (hd edis) ! nat i)"
  let ?per = "\<lambda>s. 1 / freq s ! nat i" and ?dep = "\<lambda>s. - spec_depth selector s (nat i)"
  from a have sel: "selector = ''zxy'' \<or> selector = ''zyx'' \<or> selector = ''det''" and ne: "edis \<noteq> []"
    and wf: "\<forall>s \<in> set edis. 0 \<le> i \<and> i < int (length (freq s))
               \<and> length (resistivity s) = length (freq s) \<and> length (det s) = length (freq s)"
    and m: "\<exists>s \<in> set edis. ?per s \<noteq> ?per (hd edis)"
    by simp_all
  have ok: "\<forall>s \<in> set edis. station_depth s i selector = Inr (?per s, ?dep s)"
    using wf by (auto intro!: station_depth_spec [OF sel])
  from m show "plot_latlon_depth_profile edis i selector = Inl PeriodsNotEqual"
    unfolding plot_latlon_depth_profile_ok [OF ne ok] by auto
next
  assume "\<forall>s \<in> set edis. length (det s) = length (freq s)"
  then show "create_csv_file fmt edis =
           Inr (map (\<lambda>s. (lat s, lon s, depth_string fmt (det_depths s)))
                    (filter (\<lambda>s. station_periods s = station_periods (hd edis)) edis),
                map (\<lambda>s. MT_Periods_Not_Equal (station_periods s) (station_periods (hd edis)))
                    (filter (\<lambda>s. station_periods s \<noteq> station_periods (hd edis)) edis))"
    by (rule create_csv_file_result)
qed

theorem period_mismatch_two_policies_witness:
  "plot_latlon_depth_profile
     [\<lparr>station = ''S1'', lat = 0, lon = 0, freq = [1, 2], resistivity = [((0, 1), (1, 0)), ((0, 1), (1, 0))], det = [5, 5]\<rparr>,
      \<lparr>station = ''S2'', lat = 0, lon = 1, freq = [1, 4], resistivity = [((0, 1), (1, 0)), ((0, 1), (1, 0))], det = [5, 5]\<rparr>,
      \<lparr>station = ''S3'', lat = 1, lon = 0, freq = [1, 2], resistivity = [((0, 1), (1, 0)), ((0, 1), (1, 0))], det = [5, 5]\<rparr>]
     1 ''det'' = Inl PeriodsNotEqual
   \<and> create_csv_file (\<lambda>x. ''0.00'')
     [\<lparr>station = ''S1'', lat = 0, lon = 0, freq = [1, 2], resistivity = [((0, 1), (1, 0)), ((0, 1), (1, 0))], det = [5, 5]\<rparr>,
      \<lparr>station = ''S2'', lat = 0, lon = 1, freq = [1, 4], resistivity = [((0, 1), (1, 0)), ((0, 1), (1, 0))], det = [5, 5]\<rparr>,
      \<lparr>station = ''S3'', lat = 1, lon = 0, freq = [1, 2], resistivity = [((0, 1), (1, 0)), ((0, 1), (1, 0))], det = [5, 5]\<rparr>]
     = Inr ([(0, 0, ''0.00,0.00''), (1, 0, ''0.00,0.00'')], [MT_Periods_Not_Equal [1, 1 / 4] [1, 1 / 2]])"
proof -
  let ?edis = "[\<lparr>station = ''S1'', lat = 0, lon = 0, freq = [1, 2], resistivity = [((0, 1), (1, 0)), ((0, 1), (1, 0))], det = [5, 5]\<rparr>,
      \<lparr>station = ''S2'', lat = 0, lon = 1, freq = [1, 4], resistivity = [((0, 1), (1, 0)), ((0, 1), (1, 0))], det = [5, 5]\<rparr>,
      \<lparr>station = ''S3'', lat = 1, lon = 0, freq = [1, 2], resistivity = [((0, 1), (1, 0)), ((0, 1), (1, 0))], det = [5, 5]\<rparr>]"
  have h1: "(''det'' = ''zxy'' \<or> ''det'' = ''zyx'' \<or> ''det'' = ''det'') \<and> ?edis \<noteq> []
      \<and> (\<forall>s \<in> set ?edis. 0 \<le> (1::int) \<and> 1 < int (length (freq s))
             \<and> length (resistivity s) = length (freq s) \<and> length (det s) = length (freq s))
      \<and> (\<exists>s \<in> set ?edis. 1 / freq s ! nat 1 \<noteq> 1 / freq (hd ?edis) ! nat 1)"
    by simp
  have h2: "\<forall>s \<in> set ?edis. length (det s) = length (freq s)" by simp
  note t = period_mismatch_two_policies [of "''det''" ?edis 1 "\<lambda>x. ''0.00''"]
  from t [THEN conjunct1, THEN mp, OF h1]
  have a: "plot_latlon_depth_profile ?edis 1 ''det'' = Inl PeriodsNotEqual" .
  from t [THEN conjunct2, THEN mp, OF h2]
  have b: "create_csv_file (\<lambda>x. ''0.00'') ?edis
             = Inr ([(0, 0, ''0.00,0.00''), (1, 0, ''0.00,0.00'')], [MT_Periods_Not_Equal [1, 1 / 4] [1, 1 / 2]])"
    by (simp add: station_periods_def det_depths_def depth_string_def)
  from a b show ?thesis ..
qed

end
